theory Spec2Isabelle
  imports Main "HOL-Library.Word"
begin

unbundle bit_operations_syntax

section \<open>Data model\<close>

text \<open>
  A Node \<open>Buffer\<close> is a list of bytes. A JavaScript string is a sequence of UTF-16 code
  units; \<open>str\<close> writes an ASCII literal of the source as such a sequence.
\<close>

type_synonym byte = "8 word"
type_synonym Buffer = "byte list"
type_synonym jsstring = "16 word list"

definition str :: "string \<Rightarrow> jsstring" where
  "str s = map (\<lambda>c. of_nat (of_char c)) s"

text \<open>
  The errors the modelled code can raise: the range error of the \<open>Buffer\<close> integer
  accessors, a filesystem error (with its message) and a provider error (with its message).
\<close>

datatype error = ERR_OUT_OF_RANGE | FsError jsstring | ProviderError jsstring

subsection \<open>Buffer primitives (Node's \<open>Buffer\<close> API)\<close>

text \<open>\<open>buf.slice(a, b)\<close> for non-negative indices: both ends are clamped to the length.\<close>

definition slice :: "Buffer \<Rightarrow> nat \<Rightarrow> nat \<Rightarrow> Buffer" where
  "slice buf a b = take (b - a) (drop a buf)"

text \<open>\<open>buf.readUInt32BE(offset)\<close> raises \<open>ERR_OUT_OF_RANGE\<close> unless four bytes are there.\<close>

definition readUInt32BE :: "Buffer \<Rightarrow> nat \<Rightarrow> error + nat" where
  "readUInt32BE buf off =
     (if off + 4 \<le> length buf
      then Inr (unat (buf ! off) * 16777216 + unat (buf ! (off + 1)) * 65536
                + unat (buf ! (off + 2)) * 256 + unat (buf ! (off + 3)))
      else Inl ERR_OUT_OF_RANGE)"

text \<open>
  \<open>Buffer.alloc(4)\<close> followed by \<open>writeUInt32BE(value, 0)\<close>: the four bytes of the value,
  most significant first; a value above \<open>2^32 - 1\<close> raises \<open>ERR_OUT_OF_RANGE\<close>.
\<close>

definition writeUInt32BE :: "nat \<Rightarrow> error + Buffer" where
  "writeUInt32BE v =
     (if v < 4294967296
      then Inr [of_nat (v div 16777216), of_nat (v div 65536 mod 256),
                of_nat (v div 256 mod 256), of_nat (v mod 256)]
      else Inl ERR_OUT_OF_RANGE)"

text \<open>\<open>Buffer.from(s, "latin1")\<close> (and \<open>"ascii"\<close>): the low byte of every code unit.\<close>

definition latin1 :: "jsstring \<Rightarrow> Buffer" where
  "latin1 s = map ucast s"

text \<open>
  \<open>Buffer.from(s, "utf8")\<close>: a surrogate pair is one four-byte sequence, a lone surrogate
  is replaced by U+FFFD (\<open>EF BF BD\<close>).
\<close>

definition utf8_1 :: "nat \<Rightarrow> Buffer" where
  "utf8_1 u = [of_nat u]"

definition utf8_2 :: "nat \<Rightarrow> Buffer" where
  "utf8_2 u = [of_nat (192 + u div 64), of_nat (128 + u mod 64)]"

definition utf8_3 :: "nat \<Rightarrow> Buffer" where
  "utf8_3 u = [of_nat (224 + u div 4096), of_nat (128 + u div 64 mod 64), of_nat (128 + u mod 64)]"

definition utf8_4 :: "nat \<Rightarrow> Buffer" where
  "utf8_4 u = [of_nat (240 + u div 262144), of_nat (128 + u div 4096 mod 64),
               of_nat (128 + u div 64 mod 64), of_nat (128 + u mod 64)]"

definition isHighSurrogate :: "16 word \<Rightarrow> bool" where
  "isHighSurrogate c = (55296 \<le> unat c \<and> unat c < 56320)"

definition isLowSurrogate :: "16 word \<Rightarrow> bool" where
  "isLowSurrogate c = (56320 \<le> unat c \<and> unat c < 57344)"

fun utf8 :: "jsstring \<Rightarrow> Buffer" where
  "utf8 [] = []"
| "utf8 [c] =
     (if unat c < 128 then utf8_1 (unat c)
      else if unat c < 2048 then utf8_2 (unat c)
      else if isHighSurrogate c \<or> isLowSurrogate c then utf8_3 65533
      else utf8_3 (unat c))"
| "utf8 (c # d # cs) =
     (if unat c < 128 then utf8_1 (unat c) @ utf8 (d # cs)
      else if unat c < 2048 then utf8_2 (unat c) @ utf8 (d # cs)
      else if isHighSurrogate c \<and> isLowSurrogate d
        then utf8_4 (65536 + (unat c - 55296) * 1024 + (unat d - 56320)) @ utf8 cs
      else if isHighSurrogate c \<or> isLowSurrogate c then utf8_3 65533 @ utf8 (d # cs)
      else utf8_3 (unat c) @ utf8 (d # cs))"

subsection \<open>String primitives\<close>

text \<open>The white space and line terminators that \<open>String.prototype.trim\<close> removes.\<close>

definition isJsWhitespace :: "16 word \<Rightarrow> bool" where
  "isJsWhitespace c =
     (let u = unat c in
      (9 \<le> u \<and> u \<le> 13) \<or> u = 32 \<or> u = 160 \<or> u = 5760 \<or> (8192 \<le> u \<and> u \<le> 8202)
      \<or> u = 8232 \<or> u = 8233 \<or> u = 8239 \<or> u = 8287 \<or> u = 12288 \<or> u = 65279)"

definition trim :: "jsstring \<Rightarrow> jsstring" where
  "trim s = rev (dropWhile isJsWhitespace (rev (dropWhile isJsWhitespace s)))"

subsection \<open>CRC-32 (\<open>zlib.crc32\<close>)\<close>

text \<open>
  The checksum of zlib: reflected polynomial \<open>0xEDB88320\<close>, initial value and final
  complement \<open>0xFFFFFFFF\<close>, one bit at a time.
\<close>

definition crc32_shift :: "32 word \<Rightarrow> 32 word" where
  "crc32_shift c = (if bit c 0 then drop_bit 1 c XOR 0xEDB88320 else drop_bit 1 c)"

definition crc32_byte :: "32 word \<Rightarrow> byte \<Rightarrow> 32 word" where
  "crc32_byte c b =
     crc32_shift (crc32_shift (crc32_shift (crc32_shift
       (crc32_shift (crc32_shift (crc32_shift (crc32_shift (c XOR ucast b))))))))"

definition crc32 :: "Buffer \<Rightarrow> 32 word" where
  "crc32 data = foldl crc32_byte 0xFFFFFFFF data XOR 0xFFFFFFFF"

section \<open>The metadata codec (\<open>utils/image.ts\<close>)\<close>

text \<open>The \<open>ImageMetadata\<close> interface: every field is optional.\<close>

record ImageMetadata =
  prompt :: "jsstring option"
  model :: "jsstring option"
  provider :: "jsstring option"
  format :: "jsstring option"
  style :: "jsstring option"
  title :: "jsstring option"
  generatedAt :: "jsstring option"

text \<open>\<open>if (field)\<close>: an absent field and the empty string are both falsy.\<close>

fun truthy :: "jsstring option \<Rightarrow> bool" where
  "truthy None = False"
| "truthy (Some s) = (s \<noteq> [])"

definition tEXt :: Buffer where
  "tEXt = latin1 (str ''tEXt'')"

definition createPngTextChunk :: "jsstring \<Rightarrow> jsstring \<Rightarrow> error + Buffer" where
  "createPngTextChunk keyword text =
     (let safeKeyword = trim (take 79 keyword);
          keywordBuf = latin1 safeKeyword;
          textBuf = utf8 text;
          data = keywordBuf @ [0] @ textBuf
      in case writeUInt32BE (length data) of
           Inl e \<Rightarrow> Inl e
         | Inr len \<Rightarrow>
             (let crcData = tEXt @ data;
                  crcValue = crc32 crcData
              in case writeUInt32BE (unat crcValue) of
                   Inl e \<Rightarrow> Inl e
                 | Inr crcBuf \<Rightarrow> Inr (len @ tEXt @ data @ crcBuf)))"

text \<open>
  One \<open>chunks.push(createPngTextChunk(keyword, text))\<close>, and the push guarded by
  \<open>if (field)\<close>. An error raised earlier is kept: nothing after it runs.
\<close>

definition pushChunk ::
  "jsstring \<Rightarrow> jsstring \<Rightarrow> error + Buffer list \<Rightarrow> error + Buffer list" where
  "pushChunk keyword text acc =
     (case acc of
        Inl e \<Rightarrow> Inl e
      | Inr chunks \<Rightarrow>
          (case createPngTextChunk keyword text of
             Inl e \<Rightarrow> Inl e
           | Inr c \<Rightarrow> Inr (chunks @ [c])))"

definition pushIfPresent ::
  "jsstring \<Rightarrow> jsstring option \<Rightarrow> error + Buffer list \<Rightarrow> error + Buffer list" where
  "pushIfPresent keyword field acc =
     (case field of
        None \<Rightarrow> acc
      | Some text \<Rightarrow> (if truthy field then pushChunk keyword text acc else acc))"

definition PNG_SIGNATURE_LENGTH :: nat where
  "PNG_SIGNATURE_LENGTH = 8"

definition expectedSig :: Buffer where
  "expectedSig = [137, 80, 78, 71, 13, 10, 26, 10]"

definition softwareName :: jsstring where
  "softwareName = str ''image-generation-mcp''"

definition sourceUrl :: jsstring where
  "sourceUrl = str ''https://github.com/12-days-of-shipmas-2025/day-2-image-generation-mcp''"

definition metadataChunks :: "ImageMetadata \<Rightarrow> error + Buffer list" where
  "metadataChunks metadata =
     pushChunk (str ''Source'') sourceUrl
    (pushChunk (str ''Software'') softwareName
    (pushIfPresent (str ''Creation-Time'') (generatedAt metadata)
    (pushIfPresent (str ''Title'') (title metadata)
    (pushIfPresent (str ''AI-Style'') (style metadata)
    (pushIfPresent (str ''Image-Format'') (format metadata)
    (pushIfPresent (str ''AI-Provider'') (provider metadata)
    (pushIfPresent (str ''AI-Model'') (model metadata)
    (pushIfPresent (str ''Description'') (prompt metadata)
    (Inr [])))))))))"

definition embedPngMetadata :: "Buffer \<Rightarrow> ImageMetadata \<Rightarrow> error + Buffer" where
  "embedPngMetadata pngBuffer metadata =
     (let signature = slice pngBuffer 0 PNG_SIGNATURE_LENGTH
      in if signature \<noteq> expectedSig then Inr pngBuffer
         else (case readUInt32BE pngBuffer PNG_SIGNATURE_LENGTH of
                 Inl e \<Rightarrow> Inl e
               | Inr ihdrLength \<Rightarrow>
                   (let ihdrEnd = PNG_SIGNATURE_LENGTH + 4 + 4 + ihdrLength + 4
                    in case metadataChunks metadata of
                         Inl e \<Rightarrow> Inl e
                       | Inr chunks \<Rightarrow>
                           (let beforeMetadata = slice pngBuffer 0 ihdrEnd;
                                afterIhdr = drop ihdrEnd pngBuffer;
                                metadataBuffer = concat chunks
                            in Inr (beforeMetadata @ metadataBuffer @ afterIhdr)))))"

section \<open>The inserted chunks, as the specification describes them\<close>

text \<open>
  A second description, written from the specification and compared with the code
  below. A chunk is the big-endian length of its data, the type \<open>tEXt\<close>, the data
  (keyword in Latin-1, a zero byte, the value in UTF-8) and the big-endian CRC-32 of type
  and data; its length is \<open>12 + keyword bytes + 1 + value bytes\<close>.
\<close>

definition be32 :: "nat \<Rightarrow> Buffer" where
  "be32 v = [of_nat (v div 16777216), of_nat (v div 65536 mod 256),
             of_nat (v div 256 mod 256), of_nat (v mod 256)]"

definition chunkData :: "jsstring \<times> jsstring \<Rightarrow> Buffer" where
  "chunkData kv = latin1 (fst kv) @ [0] @ utf8 (snd kv)"

definition specChunk :: "jsstring \<times> jsstring \<Rightarrow> Buffer" where
  "specChunk kv =
     be32 (length (chunkData kv)) @ tEXt @ chunkData kv @ be32 (unat (crc32 (tEXt @ chunkData kv)))"

definition specChunkLength :: "jsstring \<times> jsstring \<Rightarrow> nat" where
  "specChunkLength kv = 12 + length (fst kv) + 1 + length (utf8 (snd kv))"

text \<open>
  One entry for every non-empty field, in the fixed order, then the two fixed entries.
\<close>

definition entry :: "string \<Rightarrow> jsstring option \<Rightarrow> (jsstring \<times> jsstring) list" where
  "entry keyword field =
     (case field of None \<Rightarrow> [] | Some v \<Rightarrow> (if v = [] then [] else [(str keyword, v)]))"

definition specEntries :: "ImageMetadata \<Rightarrow> (jsstring \<times> jsstring) list" where
  "specEntries md =
     entry ''Description'' (prompt md) @ entry ''AI-Model'' (model md)
     @ entry ''AI-Provider'' (provider md) @ entry ''Image-Format'' (format md)
     @ entry ''AI-Style'' (style md) @ entry ''Title'' (title md)
     @ entry ''Creation-Time'' (generatedAt md)
     @ [(str ''Software'', softwareName), (str ''Source'', sourceUrl)]"

text \<open>The data of a chunk fit the 32-bit length field.\<close>

definition encodable :: "jsstring \<times> jsstring \<Rightarrow> bool" where
  "encodable kv = (length (fst kv) + 1 + length (utf8 (snd kv)) < 4294967296)"

definition chunksEncodable :: "ImageMetadata \<Rightarrow> bool" where
  "chunksEncodable md = list_all encodable (specEntries md)"

text \<open>A keyword that \<open>slice(0, 79).trim()\<close> leaves as it is.\<close>

definition plainKeyword :: "jsstring \<Rightarrow> bool" where
  "plainKeyword k = (trim (take 79 k) = k)"

text \<open>
  The end of the first chunk as its length field declares it, the bytes added by the
  chunks, and the offset of the \<open>i\<close>-th inserted chunk in the output.
\<close>

definition beValue :: "Buffer \<Rightarrow> nat" where
  "beValue bs = foldl (\<lambda>acc b. acc * 256 + unat b) 0 bs"

definition declaredEnd :: "Buffer \<Rightarrow> nat" where
  "declaredEnd buf = 8 + 4 + 4 + beValue (slice buf 8 12) + 4"

definition overhead :: "ImageMetadata \<Rightarrow> nat" where
  "overhead md = sum_list (map specChunkLength (specEntries md))"

definition chunkStart :: "Buffer \<Rightarrow> ImageMetadata \<Rightarrow> nat \<Rightarrow> nat" where
  "chunkStart buf md i =
     min (declaredEnd buf) (length buf) + sum_list (map specChunkLength (take i (specEntries md)))"

text \<open>
  Strings as a JavaScript engine holds them: V8 refuses to build a string of more than
  \<open>2^30\<close> code units (the limit is lower in most versions).
\<close>

definition withinStringLimit :: "jsstring option \<Rightarrow> bool" where
  "withinStringLimit f = (case f of None \<Rightarrow> True | Some s \<Rightarrow> length s \<le> 1073741824)"

definition fieldsWithinStringLimit :: "ImageMetadata \<Rightarrow> bool" where
  "fieldsWithinStringLimit md =
     (withinStringLimit (prompt md) \<and> withinStringLimit (model md)
      \<and> withinStringLimit (provider md) \<and> withinStringLimit (format md)
      \<and> withinStringLimit (style md) \<and> withinStringLimit (title md)
      \<and> withinStringLimit (generatedAt md))"

text \<open>Two metadata records and a one-pixel PNG file (signature, IHDR, IDAT, IEND).\<close>

definition noMetadata :: ImageMetadata where
  "noMetadata = \<lparr> prompt = None, model = None, provider = None, format = None,
                   style = None, title = None, generatedAt = None \<rparr>"

definition sunsetMetadata :: ImageMetadata where
  "sunsetMetadata = \<lparr> prompt = Some (str ''sunset''), model = None, provider = Some (str ''gemini''),
                   format = None, style = Some [], title = None, generatedAt = None \<rparr>"

definition onePixelPng :: Buffer where
  "onePixelPng =
     [137, 80, 78, 71, 13, 10, 26, 10,
      0, 0, 0, 13, 73, 72, 68, 82, 0, 0, 0, 1, 0, 0, 0, 1, 8, 6, 0, 0, 0, 31, 21, 196, 137,
      0, 0, 0, 13, 73, 68, 65, 84, 120, 218, 99, 100, 96, 248, 95, 15, 0, 2, 135, 1, 128,
      235, 71, 186, 146,
      0, 0, 0, 0, 73, 69, 78, 68, 174, 66, 96, 130]"

section \<open>File names, paths and sizes (\<open>utils/image.ts\<close>)\<close>

subsection \<open>Property lookup in an object literal\<close>

text \<open>
  \<open>mimeToExt[mimeType]\<close> reads a property of a plain object literal: an own property
  if there is one, otherwise whatever \<open>Object.prototype\<close> has under that name (its
  built-in functions, or the prototype itself for \<open>__proto__\<close>), otherwise
  \<open>undefined\<close>. Only \<open>undefined\<close> and \<open>null\<close> make \<open>??\<close> take its right operand.
\<close>

datatype jsvalue = VString jsstring | VNativeFunction jsstring | VObjectPrototype | VUndefined

definition objectPrototypeFunctions :: "(jsstring \<times> jsstring) list" where
  "objectPrototypeFunctions =
     [(str ''constructor'', str ''Object''),
      (str ''__defineGetter__'', str ''__defineGetter__''),
      (str ''__defineSetter__'', str ''__defineSetter__''),
      (str ''hasOwnProperty'', str ''hasOwnProperty''),
      (str ''__lookupGetter__'', str ''__lookupGetter__''),
      (str ''__lookupSetter__'', str ''__lookupSetter__''),
      (str ''isPrototypeOf'', str ''isPrototypeOf''),
      (str ''propertyIsEnumerable'', str ''propertyIsEnumerable''),
      (str ''toString'', str ''toString''),
      (str ''valueOf'', str ''valueOf''),
      (str ''toLocaleString'', str ''toLocaleString'')]"

definition getProperty :: "(jsstring \<times> jsstring) list \<Rightarrow> jsstring \<Rightarrow> jsvalue" where
  "getProperty obj key =
     (case map_of obj key of
        Some v \<Rightarrow> VString v
      | None \<Rightarrow>
          (case map_of objectPrototypeFunctions key of
             Some f \<Rightarrow> VNativeFunction f
           | None \<Rightarrow> (if key = str ''__proto__'' then VObjectPrototype else VUndefined)))"

text \<open>The string a value becomes inside a template literal or under \<open>+=\<close>.\<close>

fun jsToString :: "jsvalue \<Rightarrow> jsstring" where
  "jsToString (VString s) = s"
| "jsToString (VNativeFunction f) = str ''function '' @ f @ str ''() { [native code] }''"
| "jsToString VObjectPrototype = str ''[object Object]''"
| "jsToString VUndefined = str ''undefined''"

definition mimeToExt :: "(jsstring \<times> jsstring) list" where
  "mimeToExt =
     [(str ''image/png'', str ''.png''),
      (str ''image/jpeg'', str ''.jpg''),
      (str ''image/jpg'', str ''.jpg''),
      (str ''image/webp'', str ''.webp''),
      (str ''image/gif'', str ''.gif'')]"

definition getExtensionFromMimeType :: "jsstring \<Rightarrow> jsvalue" where
  "getExtensionFromMimeType mimeType =
     (case getProperty mimeToExt mimeType of
        VUndefined \<Rightarrow> VString (str ''.png'')
      | v \<Rightarrow> v)"

subsection \<open>The clock and \<open>Date.prototype.toISOString\<close>\<close>

text \<open>
  An instant in UTC. \<open>toISOString\<close> prints \<open>YYYY-MM-DDTHH:mm:ss.sssZ\<close>, and a year
  above 9999 with a sign and six digits.
\<close>

record instant =
  year :: nat
  month :: nat
  day :: nat
  hour :: nat
  minute :: nat
  second :: nat
  millisecond :: nat

definition digit :: "nat \<Rightarrow> 16 word" where
  "digit n = of_nat (48 + n mod 10)"

definition pad2 :: "nat \<Rightarrow> jsstring" where
  "pad2 n = [digit (n div 10), digit n]"

definition pad3 :: "nat \<Rightarrow> jsstring" where
  "pad3 n = [digit (n div 100), digit (n div 10), digit n]"

definition pad4 :: "nat \<Rightarrow> jsstring" where
  "pad4 n = [digit (n div 1000), digit (n div 100), digit (n div 10), digit n]"

definition pad6 :: "nat \<Rightarrow> jsstring" where
  "pad6 n = [digit (n div 100000), digit (n div 10000), digit (n div 1000),
             digit (n div 100), digit (n div 10), digit n]"

definition toISOString :: "instant \<Rightarrow> jsstring" where
  "toISOString t =
     (if year t \<le> 9999 then pad4 (year t) else str ''+'' @ pad6 (year t))
     @ str ''-'' @ pad2 (month t) @ str ''-'' @ pad2 (day t)
     @ str ''T'' @ pad2 (hour t) @ str '':'' @ pad2 (minute t) @ str '':'' @ pad2 (second t)
     @ str ''.'' @ pad3 (millisecond t) @ str ''Z''"

text \<open>
  The world the code acts on: how often the clock has been read, and the calls made so
  far to the provider and to the filesystem, oldest first.
\<close>

datatype quality = Standard | High

record ImageGenerationOptions =
  prompt_opt :: "jsstring option"
  aspectRatio_opt :: jsstring
  width_opt :: nat
  height_opt :: nat
  quality_opt :: quality
  style_opt :: "jsstring option"

datatype event =
    IsConfiguredCall
  | GenerateImageCall ImageGenerationOptions
  | Mkdir jsstring
  | WriteFile jsstring Buffer

record world =
  ticks :: nat
  events :: "event list"

definition emit :: "event \<Rightarrow> world \<Rightarrow> world" where
  "emit e w = w\<lparr>events := events w @ [e]\<rparr>"

subsection \<open>The environment\<close>

text \<open>
  What the code takes from outside \<open>src/\<close>: Node's \<open>path\<close> and \<open>fs\<close> modules, the
  process environment, the clock, and the modules of the repository that are not part of
  the sources at hand (\<open>utils/security\<close>, \<open>config/presets\<close>, \<open>providers/index\<close>).
\<close>

record validation =
  valid :: bool
  error_v :: "jsstring option"
  sanitized :: "jsstring option"

record PlatformPreset =
  width_preset :: nat
  height_preset :: nat
  aspectRatio :: jsstring
  nativeAspectRatio :: bool
  geminiAspectRatio :: jsstring

record GeneratedImage =
  base64Data_gen :: jsstring
  mimeType_gen :: jsstring
  width_gen :: "nat option"
  height_gen :: "nat option"
  model_gen :: "jsstring option"

record ImageProvider =
  isConfigured :: bool
  generateImage :: "ImageGenerationOptions \<Rightarrow> error + GeneratedImage"

record env =
  resolve :: "jsstring \<Rightarrow> jsstring"
  join :: "jsstring \<Rightarrow> jsstring \<Rightarrow> jsstring"
  dirname :: "jsstring \<Rightarrow> jsstring"
  extname :: "jsstring \<Rightarrow> jsstring"
  existsSync :: "jsstring \<Rightarrow> bool"
  statIsDirectory :: "jsstring \<Rightarrow> error + bool"
  mkdirResult :: "jsstring \<Rightarrow> error option"
  writeFileResult :: "jsstring \<Rightarrow> Buffer \<Rightarrow> error option"
  clock :: "nat \<Rightarrow> instant"
  cwd :: jsstring
  IMAGE_OUTPUT_DIR :: "jsstring option"
  validatePrompt :: "jsstring \<Rightarrow> validation"
  validateOutputPath :: "jsstring \<Rightarrow> validation"
  safeErrorMessage :: "error \<Rightarrow> jsstring"
  PLATFORM_PRESETS :: "jsstring \<Rightarrow> PlatformPreset option"
  PRESET_KEYS :: "jsstring list"
  createProvider :: "jsstring \<Rightarrow> ImageProvider"

text \<open>\<open>new Date()\<close>: one more reading of the clock.\<close>

definition newDate :: "env \<Rightarrow> world \<Rightarrow> world \<times> instant" where
  "newDate e w = (w\<lparr>ticks := Suc (ticks w)\<rparr>, clock e (ticks w))"

subsection \<open>File names\<close>

definition replaceColonDot :: "jsstring \<Rightarrow> jsstring" where
  "replaceColonDot s = map (\<lambda>c. if c = 58 \<or> c = 46 then 45 else c) s"

definition timestampOf :: "instant \<Rightarrow> jsstring" where
  "timestampOf t = take 19 (replaceColonDot (toISOString t))"

definition generateFilename :: "env \<Rightarrow> world \<Rightarrow> jsstring \<Rightarrow> jsstring \<Rightarrow> world \<times> jsstring" where
  "generateFilename e w prefix mimeType =
     (let (w', now) = newDate e w;
          timestamp = timestampOf now;
          ext = getExtensionFromMimeType mimeType
      in (w', prefix @ str ''-'' @ timestamp @ jsToString ext))"

definition getDefaultOutputDir :: "env \<Rightarrow> jsstring" where
  "getDefaultOutputDir e =
     (if truthy (IMAGE_OUTPUT_DIR e)
      then resolve e (case IMAGE_OUTPUT_DIR e of Some d \<Rightarrow> d | None \<Rightarrow> [])
      else join e (cwd e) (str ''generated-images''))"

definition generateDefaultOutputPath :: "env \<Rightarrow> world \<Rightarrow> jsstring \<Rightarrow> world \<times> jsstring" where
  "generateDefaultOutputPath e w mimeType =
     (let dir = getDefaultOutputDir e;
          (w', filename) = generateFilename e w (str ''blog-image'') mimeType
      in (w', join e dir filename))"

subsection \<open>Base64 (\<open>Buffer.from(s, "base64")\<close>)\<close>

text \<open>
  Node's decoder reads every UTF-16 code unit through its low byte only
  (\<open>static_cast<uint8_t>\<close>). On these bytes it stops at the first \<open>=\<close>, skips every
  byte outside the standard and the URL-safe alphabet, and turns each four sextets into
  three bytes (two left over give one byte, three give two).
\<close>

definition sextet :: "byte \<Rightarrow> nat option" where
  "sextet c =
     (let u = unat c in
      if 65 \<le> u \<and> u \<le> 90 then Some (u - 65)
      else if 97 \<le> u \<and> u \<le> 122 then Some (u - 71)
      else if 48 \<le> u \<and> u \<le> 57 then Some (u + 4)
      else if u = 43 \<or> u = 45 then Some 62
      else if u = 47 \<or> u = 95 then Some 63
      else None)"

fun decodeSextets :: "nat list \<Rightarrow> Buffer" where
  "decodeSextets (a # b # c # d # rest) =
     [of_nat (a * 4 + b div 16), of_nat (b mod 16 * 16 + c div 4), of_nat (c mod 4 * 64 + d)]
     @ decodeSextets rest"
| "decodeSextets [a, b, c] = [of_nat (a * 4 + b div 16), of_nat (b mod 16 * 16 + c div 4)]"
| "decodeSextets [a, b] = [of_nat (a * 4 + b div 16)]"
| "decodeSextets _ = []"

definition base64Decode :: "jsstring \<Rightarrow> Buffer" where
  "base64Decode s =
     decodeSextets (List.map_filter sextet (takeWhile (\<lambda>c. c \<noteq> 61) (map ucast s)))"

subsection \<open>Saving\<close>

definition endsWith :: "jsstring \<Rightarrow> 16 word \<Rightarrow> bool" where
  "endsWith s c = (s \<noteq> [] \<and> last s = c)"

text \<open>
  The test \<open>outputPath.endsWith("/") || outputPath.endsWith("\\") ||
  (existsSync(absolutePath) && statSync(absolutePath).isDirectory())\<close>.
\<close>

definition isDirectoryPath :: "env \<Rightarrow> jsstring \<Rightarrow> jsstring \<Rightarrow> error + bool" where
  "isDirectoryPath e outputPath absolutePath =
     (if endsWith outputPath 47 \<or> endsWith outputPath 92 then Inr True
      else if existsSync e absolutePath then statIsDirectory e absolutePath
      else Inr False)"

text \<open>
  The path after \<open>resolve\<close>: for a directory, a generated file name is joined to it
  (and the clock is read once).
\<close>

definition resolveTarget ::
  "env \<Rightarrow> world \<Rightarrow> jsstring \<Rightarrow> jsstring \<Rightarrow> bool \<Rightarrow> world \<times> jsstring" where
  "resolveTarget e w outputPath mimeType isDirectory =
     (if isDirectory
      then (let (w', filename) = generateFilename e w (str ''blog-image'') mimeType
            in (w', join e (resolve e outputPath) filename))
      else (w, resolve e outputPath))"

text \<open>\<open>if (!extname(finalPath)) finalPath += getExtensionFromMimeType(mimeType)\<close>.\<close>

definition addExtensionIfMissing :: "env \<Rightarrow> jsstring \<Rightarrow> jsstring \<Rightarrow> jsstring" where
  "addExtensionIfMissing e absolutePath mimeType =
     (if extname e absolutePath = []
      then absolutePath @ jsToString (getExtensionFromMimeType mimeType)
      else absolutePath)"

text \<open>
  The buffer that is written: the decoded data, with the metadata embedded when a
  metadata record is given and the MIME type is \<open>image/png\<close>.
\<close>

definition finalBufferOf :: "jsstring \<Rightarrow> jsstring \<Rightarrow> ImageMetadata option \<Rightarrow> error + Buffer" where
  "finalBufferOf base64Data mimeType metadata =
     (let rawBuffer = base64Decode base64Data
      in case metadata of
           Some md \<Rightarrow> (if mimeType = str ''image/png'' then embedPngMetadata rawBuffer md
                       else Inr rawBuffer)
         | None \<Rightarrow> Inr rawBuffer)"

text \<open>The part of \<open>saveImage\<close> after the directory is there: extension, buffer, write.\<close>

definition writeImage ::
  "env \<Rightarrow> world \<Rightarrow> jsstring \<Rightarrow> jsstring \<Rightarrow> jsstring \<Rightarrow> ImageMetadata option
   \<Rightarrow> world \<times> (error + jsstring)" where
  "writeImage e w base64Data absolutePath mimeType metadata =
     (let finalPath = addExtensionIfMissing e absolutePath mimeType
      in case finalBufferOf base64Data mimeType metadata of
           Inl err \<Rightarrow> (w, Inl err)
         | Inr finalBuffer \<Rightarrow>
             (case writeFileResult e finalPath finalBuffer of
                Some err \<Rightarrow> (emit (WriteFile finalPath finalBuffer) w, Inl err)
              | None \<Rightarrow> (emit (WriteFile finalPath finalBuffer) w, Inr finalPath)))"

text \<open>\<open>if (!existsSync(dir)) await mkdir(dir, { recursive: true })\<close>.\<close>

definition ensureDirectory :: "env \<Rightarrow> world \<Rightarrow> jsstring \<Rightarrow> world \<times> error option" where
  "ensureDirectory e w dir =
     (if \<not> existsSync e dir then (emit (Mkdir dir) w, mkdirResult e dir) else (w, None))"

definition saveImage ::
  "env \<Rightarrow> world \<Rightarrow> jsstring \<Rightarrow> jsstring \<Rightarrow> jsstring \<Rightarrow> ImageMetadata option
   \<Rightarrow> world \<times> (error + jsstring)" where
  "saveImage e w base64Data outputPath mimeType metadata =
     (case isDirectoryPath e outputPath (resolve e outputPath) of
        Inl err \<Rightarrow> (w, Inl err)
      | Inr isDirectory \<Rightarrow>
          (let (w1, absolutePath) = resolveTarget e w outputPath mimeType isDirectory;
               (w2, failed) = ensureDirectory e w1 (dirname e absolutePath)
           in case failed of
                Some err \<Rightarrow> (w2, Inl err)
              | None \<Rightarrow> writeImage e w2 base64Data absolutePath mimeType metadata))"

subsection \<open>Sizes\<close>

definition estimateFileSize :: "jsstring \<Rightarrow> nat" where
  "estimateFileSize base64Data = (length base64Data * 3) div 4"

fun showNat :: "nat \<Rightarrow> jsstring" where
  "showNat n = (if n < 10 then [digit n] else showNat (n div 10) @ [digit n])"

declare showNat.simps [simp del]

text \<open>
  \<open>(bytes / unit).toFixed(1)\<close> for a power of two \<open>unit\<close>: the quotient is exact, and
  \<open>toFixed\<close> rounds it to tenths, a tie going up.
\<close>

definition toFixed1 :: "nat \<Rightarrow> nat \<Rightarrow> jsstring" where
  "toFixed1 bytes unit =
     (let tenths = (20 * bytes + unit) div (2 * unit)
      in showNat (tenths div 10) @ str ''.'' @ showNat (tenths mod 10))"

definition formatFileSize :: "nat \<Rightarrow> jsstring" where
  "formatFileSize bytes =
     (if bytes < 1024 then showNat bytes @ str '' B''
      else if bytes < 1024 * 1024 then toFixed1 bytes 1024 @ str '' KB''
      else toFixed1 bytes (1024 * 1024) @ str '' MB'')"

subsection \<open>Extensions, as the specification describes them\<close>




section \<open>The tool handler (\<open>tools/generate-image.ts\<close>)\<close>

record GenerateImageInput =
  prompt_in :: jsstring
  format_in :: jsstring
  quality_in :: quality
  style_in :: "jsstring option"
  title_in :: "jsstring option"
  outputPath_in :: "jsstring option"
  provider_in :: jsstring

record dimensions =
  width_dim :: nat
  height_dim :: nat
  requestedWidth :: "nat option"
  requestedHeight :: "nat option"

record imageInfo =
  base64Data_out :: jsstring
  mimeType_out :: jsstring
  format_out :: jsstring
  dimensions :: dimensions
  fileSize :: jsstring
  savedTo :: "jsstring option"

record GenerateImageResult =
  success :: bool
  message :: jsstring
  image :: "imageInfo option"
  preset_out :: "PlatformPreset option"
  warning :: "jsstring option"
  error_out :: "jsstring option"

text \<open>A failure result: \<open>{ success: false, message, error }\<close>.\<close>

definition failure :: "jsstring \<Rightarrow> jsstring option \<Rightarrow> GenerateImageResult" where
  "failure msg err =
     \<lparr> success = False, message = msg, image = None, preset_out = None, warning = None,
       error_out = err \<rparr>"

fun joinWith :: "jsstring \<Rightarrow> jsstring list \<Rightarrow> jsstring" where
  "joinWith sep [] = []"
| "joinWith sep [x] = x"
| "joinWith sep (x # y # ys) = x @ sep @ joinWith sep (y # ys)"

text \<open>The two warning texts.\<close>

definition sizeText :: "nat \<Rightarrow> nat \<Rightarrow> jsstring" where
  "sizeText w h = showNat w @ str ''x'' @ showNat h"

definition nativeMismatchWarning :: "PlatformPreset \<Rightarrow> jsstring" where
  "nativeMismatchWarning preset =
     str ''Note: This preset'' @ [39] @ str ''s aspect ratio ('' @ aspectRatio preset
     @ str '') is not natively supported by Gemini. ''
     @ str ''Image was generated at '' @ geminiAspectRatio preset @ str '' aspect ratio. ''
     @ str ''You may need to crop the image to fit ''
     @ sizeText (width_preset preset) (height_preset preset) @ str ''.''"

definition dimensionDriftWarning :: "nat \<Rightarrow> nat \<Rightarrow> PlatformPreset \<Rightarrow> jsstring" where
  "dimensionDriftWarning actualWidth actualHeight preset =
     str ''Image was generated at '' @ sizeText actualWidth actualHeight
     @ str '', which differs from the preset'' @ [39] @ str ''s ''
     @ sizeText (width_preset preset) (height_preset preset) @ str ''. ''
     @ str ''You may need to resize the image.''"

text \<open>The last part of \<open>executeGenerateImage\<close>: dimensions, warning and the success result.\<close>

definition successResult ::
  "GenerateImageInput \<Rightarrow> PlatformPreset \<Rightarrow> GeneratedImage \<Rightarrow> jsstring \<Rightarrow> jsstring
   \<Rightarrow> GenerateImageResult" where
  "successResult input preset generatedImage fsize savedPath =
     (let actualWidth = (case width_gen generatedImage of Some x \<Rightarrow> x | None \<Rightarrow> width_preset preset);
          actualHeight = (case height_gen generatedImage of Some y \<Rightarrow> y | None \<Rightarrow> height_preset preset);
          warn = (if \<not> nativeAspectRatio preset then Some (nativeMismatchWarning preset)
                  else if actualWidth \<noteq> width_preset preset \<or> actualHeight \<noteq> height_preset preset
                    then Some (dimensionDriftWarning actualWidth actualHeight preset)
                  else None);
          msg = str ''Image generated and saved to '' @ savedPath
      in \<lparr> success = True,
           message = msg,
           image = Some \<lparr> base64Data_out = base64Data_gen generatedImage,
                          mimeType_out = mimeType_gen generatedImage,
                          format_out = format_in input,
                          dimensions = \<lparr> width_dim = actualWidth, height_dim = actualHeight,
                                         requestedWidth = Some (width_preset preset),
                                         requestedHeight = Some (height_preset preset) \<rparr>,
                          fileSize = fsize,
                          savedTo = Some savedPath \<rparr>,
           preset_out = Some preset,
           warning = warn,
           error_out = None \<rparr>)"

text \<open>The metadata record built for the image.\<close>

definition buildMetadata :: "GenerateImageInput \<Rightarrow> GeneratedImage \<Rightarrow> instant \<Rightarrow> ImageMetadata" where
  "buildMetadata input generatedImage now =
     \<lparr> prompt = Some (prompt_in input),
       model = Some (case model_gen generatedImage of
                       Some m \<Rightarrow> m | None \<Rightarrow> str ''gemini-2.0-flash-exp''),
       provider = Some (provider_in input),
       format = Some (format_in input),
       style = style_in input,
       title = title_in input,
       generatedAt = Some (toISOString now) \<rparr>"

text \<open>\<open>input.outputPath ?? generateDefaultOutputPath(generatedImage.mimeType)\<close>.\<close>

definition chosenOutputPath ::
  "env \<Rightarrow> world \<Rightarrow> GenerateImageInput \<Rightarrow> GeneratedImage \<Rightarrow> world \<times> jsstring" where
  "chosenOutputPath e w input generatedImage =
     (case outputPath_in input of
        Some p \<Rightarrow> (w, p)
      | None \<Rightarrow> generateDefaultOutputPath e w (mimeType_gen generatedImage))"

text \<open>The call of \<open>saveImage\<close>, with the output path and the metadata built for it.\<close>

definition saveCall ::
  "env \<Rightarrow> world \<Rightarrow> GenerateImageInput \<Rightarrow> GeneratedImage \<Rightarrow> world \<times> (error + jsstring)" where
  "saveCall e w input generatedImage =
     (let (w1, outputPath) = chosenOutputPath e w input generatedImage;
          (w2, now) = newDate e w1;
          metadata = buildMetadata input generatedImage now
      in saveImage e w2 (base64Data_gen generatedImage) outputPath (mimeType_gen generatedImage)
           (Some metadata))"

text \<open>The part after the provider has answered: size, saving, result.\<close>

definition saveGenerated ::
  "env \<Rightarrow> world \<Rightarrow> GenerateImageInput \<Rightarrow> PlatformPreset \<Rightarrow> GeneratedImage
   \<Rightarrow> world \<times> GenerateImageResult" where
  "saveGenerated e w input preset generatedImage =
     (let fsize = formatFileSize (estimateFileSize (base64Data_gen generatedImage))
      in case saveCall e w input generatedImage of
           (w3, Inl err) \<Rightarrow>
             (w3, failure (str ''Failed to save image'') (Some (safeErrorMessage e err)))
         | (w3, Inr savedPath) \<Rightarrow>
             (w3, successResult input preset generatedImage fsize savedPath))"

text \<open>The options handed to the provider.\<close>

definition buildOptions ::
  "GenerateImageInput \<Rightarrow> PlatformPreset \<Rightarrow> validation \<Rightarrow> ImageGenerationOptions" where
  "buildOptions input preset promptValidation =
     (let enhancedPrompt =
            (case title_in input of
               None \<Rightarrow> sanitized promptValidation
             | Some t \<Rightarrow>
                 (if t = [] then sanitized promptValidation
                  else Some (str ''For a blog post titled '' @ [34] @ t @ [34] @ str '': ''
                             @ (case sanitized promptValidation of
                                  Some s \<Rightarrow> s | None \<Rightarrow> str ''undefined''))))
      in \<lparr> prompt_opt = enhancedPrompt,
           aspectRatio_opt = aspectRatio preset,
           width_opt = width_preset preset,
           height_opt = height_preset preset,
           quality_opt = quality_in input,
           style_opt = style_in input \<rparr>)"

text \<open>The part from the provider call on.\<close>

definition generateAndSave ::
  "env \<Rightarrow> world \<Rightarrow> GenerateImageInput \<Rightarrow> PlatformPreset \<Rightarrow> ImageProvider \<Rightarrow> validation
   \<Rightarrow> world \<times> GenerateImageResult" where
  "generateAndSave e w input preset prov promptValidation =
     (let options = buildOptions input preset promptValidation;
          w1 = emit (GenerateImageCall options) w
      in case generateImage prov options of
           Inl err \<Rightarrow>
             (w1, failure (str ''Image generation failed'') (Some (safeErrorMessage e err)))
         | Inr generatedImage \<Rightarrow> saveGenerated e w1 input preset generatedImage)"

text \<open>\<open>if (input.outputPath) { ... validateOutputPath ... }\<close>: the rejection, if there is one.\<close>

definition outputPathRejection :: "env \<Rightarrow> GenerateImageInput \<Rightarrow> validation option" where
  "outputPathRejection e input =
     (case outputPath_in input of
        None \<Rightarrow> None
      | Some p \<Rightarrow>
          (if p = [] then None
           else if valid (validateOutputPath e p) then None
           else Some (validateOutputPath e p)))"

definition executeGenerateImage ::
  "env \<Rightarrow> world \<Rightarrow> GenerateImageInput \<Rightarrow> world \<times> GenerateImageResult" where
  "executeGenerateImage e w input =
     (let promptValidation = validatePrompt e (prompt_in input)
      in if \<not> valid promptValidation
         then (w, failure (str ''Invalid prompt'') (error_v promptValidation))
         else (case outputPathRejection e input of
                 Some pathValidation \<Rightarrow>
                   (w, failure (str ''Invalid output path'') (error_v pathValidation))
               | None \<Rightarrow>
                   (case PLATFORM_PRESETS e (format_in input) of
                      None \<Rightarrow>
                        (w, failure (str ''Invalid format'')
                              (Some (str ''Unknown format: '' @ format_in input
                                     @ str ''. Available: ''
                                     @ joinWith (str '', '') (PRESET_KEYS e))))
                    | Some preset \<Rightarrow>
                        (let prov = createProvider e (provider_in input);
                             w1 = emit IsConfiguredCall w
                         in if \<not> isConfigured prov
                            then (w1, failure (str ''Provider not configured'')
                                        (Some (provider_in input
                                               @ str '' provider requires API key. Set GOOGLE_API_KEY environment variable.'')))
                            else generateAndSave e w1 input preset prov promptValidation))))"

subsection \<open>\<open>GeminiProvider\<close> (\<open>providers/gemini.ts\<close>)\<close>

text \<open>
  The constructor keeps a client exactly when an API key is there
  (\<open>config.apiKey || process.env.GOOGLE_API_KEY\<close>), and \<open>isConfigured\<close> asks for the client.
\<close>

definition geminiClient :: "jsstring option \<Rightarrow> jsstring option \<Rightarrow> jsstring option" where
  "geminiClient configApiKey GOOGLE_API_KEY =
     (let apiKey = (if truthy configApiKey then configApiKey else GOOGLE_API_KEY)
      in if truthy apiKey then apiKey else None)"

definition geminiIsConfigured :: "jsstring option \<Rightarrow> jsstring option \<Rightarrow> bool" where
  "geminiIsConfigured configApiKey GOOGLE_API_KEY =
     (geminiClient configApiKey GOOGLE_API_KEY \<noteq> None)"

section \<open>A concrete environment\<close>

text \<open>
  An environment to run the handler in: absolute, normalised POSIX paths (so \<open>resolve\<close>
  changes nothing and \<open>join\<close> puts a separator between its arguments), a filesystem
  that has the directory \<open>/out\<close> and nothing else, a clock, validators that accept, two
  presets of the README's table, and a provider that answers with a one-pixel PNG and the
  size Gemini produces for 16:9.
\<close>

definition posixJoin :: "jsstring \<Rightarrow> jsstring \<Rightarrow> jsstring" where
  "posixJoin a b = a @ str ''/'' @ b"

definition posixDirname :: "jsstring \<Rightarrow> jsstring" where
  "posixDirname p = rev (drop 1 (dropWhile (\<lambda>c. c \<noteq> 47) (rev p)))"

definition posixExtname :: "jsstring \<Rightarrow> jsstring" where
  "posixExtname p =
     (let base = takeWhile (\<lambda>c. c \<noteq> 47) (rev p)
      in if 46 \<in> set base then 46 # rev (takeWhile (\<lambda>c. c \<noteq> 46) base) else [])"

definition errorMessage :: "error \<Rightarrow> jsstring" where
  "errorMessage err =
     (case err of
        ERR_OUT_OF_RANGE \<Rightarrow> str ''The value of offset is out of range.''
      | FsError m \<Rightarrow> m
      | ProviderError m \<Rightarrow> m)"

definition accept :: "jsstring \<Rightarrow> validation" where
  "accept s = \<lparr> valid = True, error_v = None, sanitized = Some s \<rparr>"

definition ghostBanner :: PlatformPreset where
  "ghostBanner = \<lparr> width_preset = 1200, height_preset = 675, aspectRatio = str ''16:9'',
                    nativeAspectRatio = True, geminiAspectRatio = str ''16:9'' \<rparr>"

definition facebookPost :: PlatformPreset where
  "facebookPost = \<lparr> width_preset = 1200, height_preset = 630, aspectRatio = str ''1.91:1'',
                     nativeAspectRatio = False, geminiAspectRatio = str ''16:9'' \<rparr>"

definition examplePresets :: "jsstring \<Rightarrow> PlatformPreset option" where
  "examplePresets key =
     (if key = str ''ghost-banner'' then Some ghostBanner
      else if key = str ''facebook-post'' then Some facebookPost
      else None)"

definition onePixelBase64 :: jsstring where
  "onePixelBase64 =
     str ''iVBORw0KGgoAAAANSUhEUgAAAAEAAAABCAYAAAAfFcSJAAAADUlEQVR42mNkYPhfDwAChwGA60e6kgAAAABJRU5ErkJggg==''"

definition exampleImage :: GeneratedImage where
  "exampleImage = \<lparr> base64Data_gen = onePixelBase64, mimeType_gen = str ''image/png'',
                     width_gen = Some 1536, height_gen = Some 864,
                     model_gen = Some (str ''gemini-2.5-flash-image'') \<rparr>"

definition exampleProvider :: ImageProvider where
  "exampleProvider = \<lparr> isConfigured = True, generateImage = (\<lambda>options. Inr exampleImage) \<rparr>"

definition unconfiguredProvider :: ImageProvider where
  "unconfiguredProvider =
     \<lparr> isConfigured = geminiIsConfigured None None,
       generateImage = (\<lambda>options. Inl (ProviderError
         (str ''Gemini provider not configured. Set GOOGLE_API_KEY environment variable.''))) \<rparr>"

definition exampleInstant :: instant where
  "exampleInstant = \<lparr> year = 2025, month = 12, day = 2, hour = 10, minute = 30, second = 5,
                       millisecond = 123 \<rparr>"

definition exampleEnv :: env where
  "exampleEnv =
     \<lparr> resolve = (\<lambda>p. p),
       join = posixJoin,
       dirname = posixDirname,
       extname = posixExtname,
       existsSync = (\<lambda>p. p = str ''/out''),
       statIsDirectory = (\<lambda>p. Inr (p = str ''/out'')),
       mkdirResult = (\<lambda>p. None),
       writeFileResult = (\<lambda>p b. None),
       clock = (\<lambda>n. exampleInstant),
       cwd = str ''/work'',
       IMAGE_OUTPUT_DIR = None,
       validatePrompt = accept,
       validateOutputPath = accept,
       safeErrorMessage = errorMessage,
       PLATFORM_PRESETS = examplePresets,
       PRESET_KEYS = [str ''ghost-banner'', str ''facebook-post''],
       createProvider = (\<lambda>name. exampleProvider) \<rparr>"

definition permissionDenied :: error where
  "permissionDenied = FsError (str ''EACCES: permission denied, open /out/sunset.png'')"

definition readOnlyEnv :: env where
  "readOnlyEnv = exampleEnv\<lparr> writeFileResult := (\<lambda>p b. Some permissionDenied) \<rparr>"

definition unconfiguredEnv :: env where
  "unconfiguredEnv = exampleEnv\<lparr> createProvider := (\<lambda>name. unconfiguredProvider) \<rparr>"

definition world0 :: world where
  "world0 = \<lparr> ticks = 0, events = [] \<rparr>"

definition sunsetInput :: GenerateImageInput where
  "sunsetInput = \<lparr> prompt_in = str ''sunset'', format_in = str ''ghost-banner'',
                    quality_in = Standard, style_in = None, title_in = None,
                    outputPath_in = Some (str ''/out/sunset.png''), provider_in = str ''gemini'' \<rparr>"

definition facebookInput :: GenerateImageInput where
  "facebookInput = sunsetInput\<lparr> format_in := str ''facebook-post'' \<rparr>"

text \<open>Whether a text occurs inside another, and the bytes written by the calls of a trace.\<close>

fun contains :: "jsstring \<Rightarrow> jsstring \<Rightarrow> bool" where
  "contains xs [] = (xs = [])"
| "contains xs (y # ys) = (take (length xs) (y # ys) = xs \<or> contains xs ys)"

fun writtenBuffers :: "event list \<Rightarrow> Buffer list" where
  "writtenBuffers [] = []"
| "writtenBuffers (WriteFile p b # es) = b # writtenBuffers es"
| "writtenBuffers (_ # es) = writtenBuffers es"

fun isFilesystemCall :: "event \<Rightarrow> bool" where
  "isFilesystemCall (Mkdir p) = True"
| "isFilesystemCall (WriteFile p b) = True"
| "isFilesystemCall _ = False"

fun isGenerateImageCall :: "event \<Rightarrow> bool" where
  "isGenerateImageCall (GenerateImageCall options) = True"
| "isGenerateImageCall _ = False"

text \<open>The run on \<open>sunsetInput\<close>: the metadata built for it and the file it writes.\<close>

definition exampleMetadata :: "GenerateImageInput \<Rightarrow> ImageMetadata" where
  "exampleMetadata input = buildMetadata input exampleImage exampleInstant"

definition exampleFile :: "GenerateImageInput \<Rightarrow> Buffer" where
  "exampleFile input =
     take 33 onePixelPng @ concat (map specChunk (specEntries (exampleMetadata input)))
     @ drop 33 onePixelPng"

definition exampleOptions :: "GenerateImageInput \<Rightarrow> PlatformPreset \<Rightarrow> ImageGenerationOptions" where
  "exampleOptions input preset = buildOptions input preset (accept (prompt_in input))"

definition exampleWorld :: "GenerateImageInput \<Rightarrow> PlatformPreset \<Rightarrow> world" where
  "exampleWorld input preset =
     \<lparr> ticks = 1,
       events = [IsConfiguredCall, GenerateImageCall (exampleOptions input preset),
                 WriteFile (str ''/out/sunset.png'') (exampleFile input)] \<rparr>"

section \<open>Properties\<close>

subsection \<open>The metadata codec\<close>

lemma writeUInt32BE_be32: "v < 4294967296 \<Longrightarrow> writeUInt32BE v = Inr (be32 v)"
  by (simp add: writeUInt32BE_def be32_def)

lemma length_be32 [simp]: "length (be32 v) = 4"
  by (simp add: be32_def)

lemma unat_byte_of_nat: "n < 256 \<Longrightarrow> unat (of_nat n :: byte) = n"
  by (simp add: unat_of_nat)

lemma be32_value:
  assumes "v < 4294967296"
  shows "unat (be32 v ! 0) * 16777216 + unat (be32 v ! 1) * 65536
         + unat (be32 v ! 2) * 256 + unat (be32 v ! 3) = v"
proof -
  have a: "v div 16777216 < 256" using assms by simp
  have b0: "unat (be32 v ! 0) = v div 16777216" using a by (simp add: be32_def unat_byte_of_nat)
  have b1: "unat (be32 v ! 1) = v div 65536 mod 256" by (simp add: be32_def unat_byte_of_nat)
  have b2: "unat (be32 v ! 2) = v div 256 mod 256" by (simp add: be32_def unat_byte_of_nat)
  have b3: "unat (be32 v ! 3) = v mod 256" by (simp add: be32_def unat_byte_of_nat)
  have h1: "v = v div 256 * 256 + v mod 256" by simp
  have "v div 65536 = v div 256 div 256" by (simp add: div_mult2_eq)
  then have h2: "v div 256 = v div 65536 * 256 + v div 256 mod 256" by simp
  have "v div 16777216 = v div 65536 div 256" by (simp add: div_mult2_eq)
  then have h3: "v div 65536 = v div 16777216 * 256 + v div 65536 mod 256" by simp
  show ?thesis unfolding b0 b1 b2 b3 using h1 h2 h3 by linarith
qed

lemma readUInt32BE_at:
  assumes "v < 4294967296"
  shows "readUInt32BE (pre @ be32 v @ post) (length pre) = Inr v"
proof -
  have "\<And>i. i < 4 \<Longrightarrow> (pre @ be32 v @ post) ! (length pre + i) = be32 v ! i"
    by (simp add: nth_append)
  from this[of 0] this[of 1] this[of 2] this[of 3] be32_value[OF assms]
  show ?thesis by (simp add: readUInt32BE_def)
qed

lemma length_latin1 [simp]: "length (latin1 s) = length s"
  by (simp add: latin1_def)

lemma length_tEXt [simp]: "length tEXt = 4"
  by (simp add: tEXt_def str_def)

lemma unat_crc32_bound: "unat (c :: 32 word) < 4294967296"
  using unsigned_less [of c, where ?'a = nat] by simp

lemma length_specChunk: "length (specChunk kv) = specChunkLength kv"
  by (simp add: specChunk_def specChunkLength_def chunkData_def)

lemma createPngTextChunk_spec:
  assumes "plainKeyword k" and "encodable (k, v)"
  shows "createPngTextChunk k v = Inr (specChunk (k, v))"
proof -
  have k: "trim (take 79 k) = k" using assms(1) by (simp add: plainKeyword_def)
  have l: "length (latin1 k @ [0] @ utf8 v) < 4294967296"
    using assms(2) by (simp add: encodable_def)
  show ?thesis
    unfolding createPngTextChunk_def Let_def k
    by (simp only: writeUInt32BE_be32 [OF l] writeUInt32BE_be32 [OF unat_crc32_bound]
        sum.case specChunk_def chunkData_def fst_conv snd_conv)
qed

lemma createPngTextChunk_range:
  assumes "plainKeyword k" and "\<not> encodable (k, v)"
  shows "createPngTextChunk k v = Inl ERR_OUT_OF_RANGE"
proof -
  have k: "trim (take 79 k) = k" using assms(1) by (simp add: plainKeyword_def)
  have l: "\<not> length (latin1 k @ [0] @ utf8 v) < 4294967296"
    using assms(2) by (simp add: encodable_def)
  show ?thesis
    unfolding createPngTextChunk_def Let_def k writeUInt32BE_def
    using l by simp
qed

lemma pushChunk_spec:
  assumes "plainKeyword k" and "encodable (k, v)"
  shows "pushChunk k v (Inr cs) = Inr (cs @ [specChunk (k, v)])"
  by (simp add: pushChunk_def createPngTextChunk_spec [OF assms])

lemma pushIfPresent_spec:
  assumes "plainKeyword (str kw)" and "list_all encodable (entry kw f)"
  shows "pushIfPresent (str kw) f (Inr cs) = Inr (cs @ map specChunk (entry kw f))"
proof (cases f)
  case None
  then show ?thesis by (simp add: pushIfPresent_def entry_def)
next
  case (Some v)
  show ?thesis
  proof (cases "v = []")
    case True
    with Some show ?thesis by (simp add: pushIfPresent_def entry_def)
  next
    case False
    with Some assms(2) have "encodable (str kw, v)" by (simp add: entry_def)
    with Some False show ?thesis
      by (simp add: pushIfPresent_def entry_def pushChunk_spec [OF assms(1)])
  qed
qed

lemma plainKeywords:
  "plainKeyword (str ''Description'')" "plainKeyword (str ''AI-Model'')"
  "plainKeyword (str ''AI-Provider'')" "plainKeyword (str ''Image-Format'')"
  "plainKeyword (str ''AI-Style'')" "plainKeyword (str ''Title'')"
  "plainKeyword (str ''Creation-Time'')" "plainKeyword (str ''Software'')"
  "plainKeyword (str ''Source'')"
  by (simp_all add: plainKeyword_def str_def trim_def isJsWhitespace_def)

lemma metadataChunks_spec:
  assumes "chunksEncodable md"
  shows "metadataChunks md = Inr (map specChunk (specEntries md))"
proof -
  from assms have e:
    "list_all encodable (entry ''Description'' (prompt md))"
    "list_all encodable (entry ''AI-Model'' (model md))"
    "list_all encodable (entry ''AI-Provider'' (provider md))"
    "list_all encodable (entry ''Image-Format'' (format md))"
    "list_all encodable (entry ''AI-Style'' (style md))"
    "list_all encodable (entry ''Title'' (title md))"
    "list_all encodable (entry ''Creation-Time'' (generatedAt md))"
    "encodable (str ''Software'', softwareName)"
    "encodable (str ''Source'', sourceUrl)"
    by (simp_all add: chunksEncodable_def specEntries_def)
  show ?thesis
    unfolding metadataChunks_def
    by (simp only: pushIfPresent_spec plainKeywords e pushChunk_spec specEntries_def
        map_append append_Nil append_Cons append_assoc list.map)
qed

lemma slice_four:
  assumes "off + 4 \<le> length buf"
  shows "slice buf off (off + 4) = [buf ! off, buf ! (off + 1), buf ! (off + 2), buf ! (off + 3)]"
proof (rule nth_equalityI)
  show "length (slice buf off (off + 4)) = length [buf ! off, buf ! (off + 1), buf ! (off + 2), buf ! (off + 3)]"
    using assms by (simp add: slice_def)
next
  fix i assume "i < length (slice buf off (off + 4))"
  then have i: "i < 4" by (simp add: slice_def)
  then have "i = 0 \<or> i = 1 \<or> i = 2 \<or> i = 3" by arith
  then show "slice buf off (off + 4) ! i = [buf ! off, buf ! (off + 1), buf ! (off + 2), buf ! (off + 3)] ! i"
    using assms by (auto simp: slice_def)
qed

lemma readUInt32BE_beValue:
  assumes "off + 4 \<le> length buf"
  shows "readUInt32BE buf off = Inr (beValue (slice buf off (off + 4)))"
  using assms by (simp add: slice_four readUInt32BE_def beValue_def)

lemma readUInt32BE_short:
  assumes "length buf < off + 4"
  shows "readUInt32BE buf off = Inl ERR_OUT_OF_RANGE"
  using assms by (simp add: readUInt32BE_def)

lemma slice_at:
  assumes "length a = n" and "n + length b = m"
  shows "slice (a @ b @ c) n m = b"
  using assms by (auto simp: slice_def)

lemma embed_not_png:
  assumes "take 8 buf \<noteq> expectedSig"
  shows "embedPngMetadata buf md = Inr buf"
  using assms by (simp add: embedPngMetadata_def slice_def PNG_SIGNATURE_LENGTH_def)

lemma embed_png:
  assumes "take 8 buf = expectedSig" and "12 \<le> length buf" and "chunksEncodable md"
  shows "embedPngMetadata buf md =
         Inr (take (declaredEnd buf) buf @ concat (map specChunk (specEntries md))
              @ drop (declaredEnd buf) buf)"
proof -
  have r: "readUInt32BE buf 8 = Inr (beValue (slice buf 8 12))"
    using readUInt32BE_beValue [of 8 buf] assms(2) by simp
  show ?thesis
    using assms(1)
    by (simp add: embedPngMetadata_def slice_def PNG_SIGNATURE_LENGTH_def r
        metadataChunks_spec [OF assms(3)] declaredEnd_def Let_def)
qed

lemma length_concat_specChunks:
  "length (concat (map specChunk es)) = sum_list (map specChunkLength es)"
  by (induction es) (simp_all add: length_specChunk)

text \<open>
  Claim C1. For a buffer that begins with the PNG signature and holds the whole first chunk
  its length field declares, and a metadata record whose chunk data fit the 32-bit length
  field, \<open>embedPngMetadata\<close> returns the signature and first chunk unchanged, then one
  \<open>tEXt\<close> chunk for every non-empty field in the order Description, AI-Model,
  AI-Provider, Image-Format, AI-Style, Title, Creation-Time, then the Software and the
  Source chunk, then the rest of the input unchanged. The output is longer than the input
  by the sum of \<open>12 + keyword bytes + 1 + value bytes\<close> over these chunks, and every
  input byte is found again, before the insertion point at its index and after it shifted
  by that sum.
\<close>

theorem embed_splices_chunks_after_first_chunk:
  assumes "take 8 buf = expectedSig" and "declaredEnd buf \<le> length buf"
      and "chunksEncodable md"
  shows "\<exists>out. embedPngMetadata buf md = Inr out
           \<and> out = take (declaredEnd buf) buf @ concat (map specChunk (specEntries md))
                    @ drop (declaredEnd buf) buf
           \<and> length out = length buf + overhead md
           \<and> (\<forall>i < declaredEnd buf. out ! i = buf ! i)
           \<and> (\<forall>i. declaredEnd buf \<le> i \<and> i < length buf \<longrightarrow> out ! (i + overhead md) = buf ! i)"
proof -
  let ?e = "declaredEnd buf"
  let ?c = "concat (map specChunk (specEntries md))"
  let ?out = "take ?e buf @ ?c @ drop ?e buf"
  have len12: "12 \<le> length buf" using assms(2) by (simp add: declaredEnd_def)
  have lc: "length ?c = overhead md" by (simp add: length_concat_specChunks overhead_def)
  have lt: "length (take ?e buf) = ?e" using assms(2) by simp
  have 1: "embedPngMetadata buf md = Inr ?out" by (rule embed_png [OF assms(1) len12 assms(3)])
  have 2: "length ?out = length buf + overhead md" using assms(2) lc by simp
  have 3: "\<forall>i < ?e. ?out ! i = buf ! i" using lt by (simp add: nth_append)
  have 4: "\<forall>i. ?e \<le> i \<and> i < length buf \<longrightarrow> ?out ! (i + overhead md) = buf ! i"
  proof (intro allI impI)
    fix i assume i: "?e \<le> i \<and> i < length buf"
    have "?out ! (i + overhead md) = ((take ?e buf @ ?c) @ drop ?e buf) ! (length (take ?e buf @ ?c) + (i - ?e))"
      using i lt lc by (simp add: add.commute)
    also have "\<dots> = drop ?e buf ! (i - ?e)" by (rule nth_append_length_plus)
    also have "\<dots> = buf ! i" using i by simp
    finally show "?out ! (i + overhead md) = buf ! i" .
  qed
  from 1 2 3 4 show ?thesis by blast
qed

lemma split_at_chunk:
  assumes "i < length es"
  shows "P @ concat (map f es) @ S =
         (P @ concat (map f (take i es))) @ f (es ! i) @ (concat (map f (drop (Suc i) es)) @ S)"
proof -
  have "es = take i es @ es ! i # drop (Suc i) es"
    using assms by (rule id_take_nth_drop)
  then have "map f es = map f (take i es) @ f (es ! i) # map f (drop (Suc i) es)"
    by (metis list.simps(9) map_append)
  then show ?thesis by simp
qed

lemma specChunk_fields:
  fixes kv pre post
  defines "L \<equiv> length (fst kv) + 1 + length (utf8 (snd kv))"
  defines "out \<equiv> pre @ specChunk kv @ post"
  defines "off \<equiv> length pre"
  assumes enc: "encodable kv"
  shows "readUInt32BE out off = Inr L"
    and "slice out (off + 4) (off + 8) = tEXt"
    and "slice out (off + 8) (off + 8 + L) = latin1 (fst kv) @ [0] @ utf8 (snd kv)"
    and "readUInt32BE out (off + 8 + L) = Inr (unat (crc32 (slice out (off + 4) (off + 8 + L))))"
proof -
  let ?d = "chunkData kv"
  let ?crc = "be32 (unat (crc32 (tEXt @ ?d)))"
  have ld: "length ?d = L" by (simp add: chunkData_def L_def)
  have lL: "L < 4294967296" using enc by (simp add: encodable_def L_def)
  have o1: "out = pre @ be32 L @ (tEXt @ ?d @ ?crc @ post)"
    by (simp add: out_def specChunk_def ld)
  show "readUInt32BE out off = Inr L"
    unfolding o1 off_def by (rule readUInt32BE_at [OF lL])
  have o2: "out = (pre @ be32 L) @ tEXt @ (?d @ ?crc @ post)"
    by (simp add: o1)
  show "slice out (off + 4) (off + 8) = tEXt"
    unfolding o2 by (rule slice_at) (simp_all add: off_def)
  have o3: "out = (pre @ be32 L @ tEXt) @ ?d @ (?crc @ post)"
    by (simp add: o1)
  have "slice out (off + 8) (off + 8 + L) = ?d"
    unfolding o3 by (rule slice_at) (simp_all add: off_def ld)
  then show "slice out (off + 8) (off + 8 + L) = latin1 (fst kv) @ [0] @ utf8 (snd kv)"
    by (simp add: chunkData_def)
  have o4: "out = (pre @ be32 L) @ (tEXt @ ?d) @ (?crc @ post)"
    by (simp add: o1)
  have td: "slice out (off + 4) (off + 8 + L) = tEXt @ ?d"
    unfolding o4 by (rule slice_at) (simp_all add: off_def ld)
  have o5: "out = (pre @ be32 L @ tEXt @ ?d) @ ?crc @ post"
    by (simp add: o1)
  have l5: "length (pre @ be32 L @ tEXt @ ?d) = off + 8 + L"
    by (simp add: off_def ld)
  have "readUInt32BE out (length (pre @ be32 L @ tEXt @ ?d)) = Inr (unat (crc32 (tEXt @ ?d)))"
    unfolding o5 by (rule readUInt32BE_at [OF unat_crc32_bound])
  then show "readUInt32BE out (off + 8 + L) = Inr (unat (crc32 (slice out (off + 4) (off + 8 + L))))"
    unfolding l5 td .
qed

text \<open>
  Claim C4. In the output of \<open>embedPngMetadata\<close>, the \<open>i\<close>-th inserted chunk starts at
  \<open>chunkStart\<close>. Read back from the output buffer, its four-byte big-endian length
  field is the length of the data alone (keyword bytes, one zero byte, value bytes), its
  type is \<open>tEXt\<close>, its data are the keyword, a zero byte and the UTF-8 value, and its
  four-byte big-endian checksum field is the CRC-32 of the type and data bytes as they
  stand in the output.
\<close>

theorem synthesized_chunk_length_and_crc:
  assumes "take 8 buf = expectedSig" and "12 \<le> length buf" and "chunksEncodable md"
      and "i < length (specEntries md)"
  shows "\<exists>out. embedPngMetadata buf md = Inr out \<and>
           (let off = chunkStart buf md i;
                kv = specEntries md ! i;
                L = length (fst kv) + 1 + length (utf8 (snd kv))
            in readUInt32BE out off = Inr L
             \<and> slice out (off + 4) (off + 8) = tEXt
             \<and> slice out (off + 8) (off + 8 + L) = latin1 (fst kv) @ [0] @ utf8 (snd kv)
             \<and> readUInt32BE out (off + 8 + L)
                 = Inr (unat (crc32 (slice out (off + 4) (off + 8 + L)))))"
proof -
  let ?es = "specEntries md"
  let ?P = "take (declaredEnd buf) buf"
  let ?S = "drop (declaredEnd buf) buf"
  let ?pre = "?P @ concat (map specChunk (take i ?es))"
  let ?post = "concat (map specChunk (drop (Suc i) ?es)) @ ?S"
  let ?out = "?pre @ specChunk (?es ! i) @ ?post"
  have e: "embedPngMetadata buf md = Inr ?out"
    using embed_png [OF assms(1-3)] split_at_chunk [OF assms(4), of ?P specChunk ?S] by simp
  have lp: "length ?pre = chunkStart buf md i"
    by (simp add: chunkStart_def length_concat_specChunks min.commute)
  have enc: "encodable (?es ! i)"
    using assms(3,4) by (simp add: chunksEncodable_def list_all_length)
  show ?thesis
    using e specChunk_fields [OF enc, of ?pre ?post]
    unfolding lp Let_def by blast
qed

text \<open>
  Claim C3. A buffer that does not begin with the eight signature bytes, of any length
  (the empty buffer too), comes back unchanged: \<open>embedPngMetadata\<close> returns it and
  raises nothing.
\<close>

theorem embed_passes_through_non_png:
  assumes "take 8 buf \<noteq> expectedSig"
  shows "embedPngMetadata buf md = Inr buf"
  using assms by (rule embed_not_png)

text \<open>
  Claim C10. A buffer that begins with the signature and is shorter than twelve bytes
  makes \<open>embedPngMetadata\<close> raise the range error of \<open>readUInt32BE\<close>: no buffer is
  returned.
\<close>

theorem embed_raises_on_truncated_png:
  assumes "take 8 buf = expectedSig" and "length buf < 12"
  shows "embedPngMetadata buf md = Inl ERR_OUT_OF_RANGE"
  using assms
  by (simp add: embedPngMetadata_def slice_def PNG_SIGNATURE_LENGTH_def readUInt32BE_def)

lemma pushChunk_cases:
  assumes "plainKeyword k"
  shows "pushChunk k v acc =
         (case acc of
            Inl err \<Rightarrow> Inl err
          | Inr cs \<Rightarrow> (if encodable (k, v) then Inr (cs @ [specChunk (k, v)])
                       else Inl ERR_OUT_OF_RANGE))"
  using createPngTextChunk_spec [OF assms, of v] createPngTextChunk_range [OF assms, of v]
  by (cases acc) (simp_all add: pushChunk_def)

lemma pushIfPresent_cases:
  assumes "plainKeyword (str kw)"
  shows "pushIfPresent (str kw) f acc =
         (case acc of
            Inl err \<Rightarrow> Inl err
          | Inr cs \<Rightarrow> (if list_all encodable (entry kw f)
                       then Inr (cs @ map specChunk (entry kw f))
                       else Inl ERR_OUT_OF_RANGE))"
proof (cases f)
  case None
  then show ?thesis by (cases acc) (simp_all add: pushIfPresent_def entry_def)
next
  case (Some v)
  then show ?thesis
    by (cases acc) (simp_all add: pushIfPresent_def entry_def pushChunk_cases [OF assms])
qed

lemma metadataChunks_cases:
  "metadataChunks md =
     (if chunksEncodable md then Inr (map specChunk (specEntries md)) else Inl ERR_OUT_OF_RANGE)"
  unfolding metadataChunks_def chunksEncodable_def specEntries_def
  by (simp add: pushIfPresent_cases pushChunk_cases plainKeywords)

lemma embedPngMetadata_cases:
  "embedPngMetadata buf md =
     (if take 8 buf \<noteq> expectedSig then Inr buf
      else if length buf < 12 then Inl ERR_OUT_OF_RANGE
      else if chunksEncodable md
        then Inr (take (declaredEnd buf) buf @ concat (map specChunk (specEntries md))
                  @ drop (declaredEnd buf) buf)
      else Inl ERR_OUT_OF_RANGE)"
proof -
  have r: "12 \<le> length buf \<Longrightarrow> readUInt32BE buf 8 = Inr (beValue (slice buf 8 12))"
    using readUInt32BE_beValue [of 8 buf] by simp
  have s: "length buf < 12 \<Longrightarrow> readUInt32BE buf 8 = Inl ERR_OUT_OF_RANGE"
    by (simp add: readUInt32BE_def)
  show ?thesis
    using r s
    by (cases "length buf < 12")
       (simp_all add: embedPngMetadata_def slice_def PNG_SIGNATURE_LENGTH_def
          metadataChunks_cases declaredEnd_def Let_def)
qed

text \<open>Strings a JavaScript engine can hold always fit the length field.\<close>

lemma length_utf8_le: "length (utf8 s) \<le> 3 * length s"
proof (induction s rule: utf8.induct)
  case 1
  show ?case by simp
next
  case (2 c)
  show ?case by (simp add: utf8_1_def utf8_2_def utf8_3_def)
next
  case (3 c d cs)
  show ?case
  proof (cases "\<not> unat c < 128 \<and> \<not> unat c < 2048 \<and> isHighSurrogate c \<and> isLowSurrogate d")
    case True
    with 3 have "length (utf8 cs) \<le> 3 * length cs" by simp
    with True show ?thesis by (simp add: utf8_4_def)
  next
    case False
    with 3 have "length (utf8 (d # cs)) \<le> 3 * length (d # cs)" by auto
    with False show ?thesis by (auto simp: utf8_1_def utf8_2_def utf8_3_def)
  qed
qed

lemma entry_within_limit:
  assumes "length kw \<le> 13" and "withinStringLimit f"
  shows "list_all encodable (entry kw f)"
proof (cases f)
  case None
  then show ?thesis by (simp add: entry_def)
next
  case (Some v)
  have "length (utf8 v) \<le> 3 * length v" by (rule length_utf8_le)
  moreover have "length v \<le> 1073741824" using assms(2) Some by (simp add: withinStringLimit_def)
  ultimately show ?thesis
    using assms(1) Some by (simp add: entry_def encodable_def str_def)
qed

lemma js_strings_are_encodable:
  assumes "fieldsWithinStringLimit md"
  shows "chunksEncodable md"
  using assms
  by (simp add: chunksEncodable_def specEntries_def fieldsWithinStringLimit_def
      entry_within_limit encodable_def softwareName_def sourceUrl_def str_def utf8_1_def)

lemma onePixelPng_signature: "take 8 onePixelPng = expectedSig"
  by (simp add: onePixelPng_def expectedSig_def)

lemma onePixelPng_length: "length onePixelPng = 70"
  by (simp add: onePixelPng_def)

lemma onePixelPng_declaredEnd: "declaredEnd onePixelPng = 33"
  by (simp add: declaredEnd_def beValue_def slice_def onePixelPng_def)

text \<open>The CRC-32 of the model on the standard check string and on the header chunk of a real PNG file.\<close>

lemma crc32_check_value: "crc32 (latin1 (str ''123456789'')) = 0xCBF43926"
  by (simp add: crc32_def crc32_byte_def crc32_shift_def latin1_def str_def)

lemma crc32_of_png_header:
  "readUInt32BE onePixelPng 29 = Inr (unat (crc32 (slice onePixelPng 12 29)))"
  by (simp add: readUInt32BE_def onePixelPng_def slice_def crc32_def crc32_byte_def
      crc32_shift_def)

lemma sunsetMetadata_entries:
  "specEntries sunsetMetadata =
     [(str ''Description'', str ''sunset''), (str ''AI-Provider'', str ''gemini''),
      (str ''Software'', softwareName), (str ''Source'', sourceUrl)]"
  by (simp add: specEntries_def sunsetMetadata_def entry_def str_def)

lemma sunsetMetadata_encodable: "chunksEncodable sunsetMetadata"
  by (simp add: chunksEncodable_def sunsetMetadata_entries encodable_def softwareName_def
      sourceUrl_def str_def utf8_1_def)

lemma sunsetMetadata_overhead: "overhead sunsetMetadata = 189"
  by (simp add: overhead_def sunsetMetadata_entries specChunkLength_def softwareName_def
      sourceUrl_def str_def utf8_1_def)

lemma noMetadata_entries:
  "specEntries noMetadata = [(str ''Software'', softwareName), (str ''Source'', sourceUrl)]"
  by (simp add: specEntries_def noMetadata_def entry_def)

theorem embed_splices_chunks_after_first_chunk_witness:
  "take 8 onePixelPng = expectedSig \<and> declaredEnd onePixelPng \<le> length onePixelPng
   \<and> chunksEncodable sunsetMetadata
   \<and> (\<exists>out. embedPngMetadata onePixelPng sunsetMetadata = Inr out \<and> length out = 70 + 189
         \<and> take 33 out = take 33 onePixelPng)"
proof -
  have h1: "take 8 onePixelPng = expectedSig" by (rule onePixelPng_signature)
  have h2: "declaredEnd onePixelPng \<le> length onePixelPng"
    by (simp add: onePixelPng_declaredEnd onePixelPng_length)
  have h3: "chunksEncodable sunsetMetadata" by (rule sunsetMetadata_encodable)
  from embed_splices_chunks_after_first_chunk [OF h1 h2 h3]
  obtain out where o: "embedPngMetadata onePixelPng sunsetMetadata = Inr out"
    and eq: "out = take (declaredEnd onePixelPng) onePixelPng
                   @ concat (map specChunk (specEntries sunsetMetadata))
                   @ drop (declaredEnd onePixelPng) onePixelPng"
    and len: "length out = length onePixelPng + overhead sunsetMetadata"
    by blast
  have "length out = 70 + 189"
    using len by (simp add: onePixelPng_length sunsetMetadata_overhead)
  moreover have "take 33 out = take 33 onePixelPng"
    using eq by (simp add: onePixelPng_declaredEnd onePixelPng_length)
  ultimately show ?thesis using h1 h2 h3 o by blast
qed

theorem synthesized_chunk_length_and_crc_witness:
  "take 8 onePixelPng = expectedSig \<and> 12 \<le> length onePixelPng \<and> chunksEncodable sunsetMetadata
   \<and> 1 < length (specEntries sunsetMetadata)
   \<and> (\<exists>out. embedPngMetadata onePixelPng sunsetMetadata = Inr out
         \<and> readUInt32BE out 63 = Inr 18
         \<and> slice out 67 71 = tEXt
         \<and> slice out 71 89 = latin1 (str ''AI-Provider'') @ [0] @ utf8 (str ''gemini'')
         \<and> readUInt32BE out 89 = Inr (unat (crc32 (slice out 67 89))))"
proof -
  have h1: "take 8 onePixelPng = expectedSig" by (rule onePixelPng_signature)
  have h2: "12 \<le> length onePixelPng" by (simp add: onePixelPng_length)
  have h3: "chunksEncodable sunsetMetadata" by (rule sunsetMetadata_encodable)
  have h4: "1 < length (specEntries sunsetMetadata)" by (simp add: sunsetMetadata_entries)
  have off: "chunkStart onePixelPng sunsetMetadata 1 = 63"
    by (simp add: chunkStart_def onePixelPng_declaredEnd onePixelPng_length
        sunsetMetadata_entries specChunkLength_def str_def utf8_1_def)
  have kv: "specEntries sunsetMetadata ! 1 = (str ''AI-Provider'', str ''gemini'')"
    by (simp add: sunsetMetadata_entries)
  have L: "length (str ''AI-Provider'') + 1 + length (utf8 (str ''gemini'')) = 18"
    by (simp add: str_def utf8_1_def)
  from synthesized_chunk_length_and_crc [OF h1 h2 h3 h4]
  show ?thesis
    unfolding Let_def off kv fst_conv snd_conv L
    using h1 h2 h3 h4 by simp
qed

theorem embed_passes_through_non_png_witness:
  "take 8 [] \<noteq> expectedSig \<and> embedPngMetadata [] sunsetMetadata = Inr []
   \<and> take 8 (drop 1 onePixelPng) \<noteq> expectedSig
   \<and> embedPngMetadata (drop 1 onePixelPng) sunsetMetadata = Inr (drop 1 onePixelPng)"
proof -
  have h1: "take 8 ([] :: Buffer) \<noteq> expectedSig" by (simp add: expectedSig_def)
  have h2: "take 8 (drop 1 onePixelPng) \<noteq> expectedSig"
    by (simp add: expectedSig_def onePixelPng_def)
  show ?thesis
    using h1 h2 embed_passes_through_non_png [OF h1, of sunsetMetadata]
      embed_passes_through_non_png [OF h2, of sunsetMetadata]
    by blast
qed

theorem embed_raises_on_truncated_png_witness:
  "take 8 expectedSig = expectedSig \<and> length expectedSig < 12
   \<and> embedPngMetadata expectedSig sunsetMetadata = Inl ERR_OUT_OF_RANGE"
proof -
  have h1: "take 8 expectedSig = expectedSig" by (simp add: expectedSig_def)
  have h2: "length expectedSig < 12" by (simp add: expectedSig_def)
  show ?thesis
    using h1 h2 embed_raises_on_truncated_png [OF h1 h2, of sunsetMetadata] by blast
qed

subsection \<open>Extensions and file names\<close>






lemma extension_of_constructor:
  "getExtensionFromMimeType (str ''constructor'') = VNativeFunction (str ''Object'')"
  by (simp add: getExtensionFromMimeType_def getProperty_def mimeToExt_def
      objectPrototypeFunctions_def str_def)

lemma length_pad [simp]:
  "length (pad2 n) = 2" "length (pad3 n) = 3" "length (pad4 n) = 4" "length (pad6 n) = 6"
  by (simp_all add: pad2_def pad3_def pad4_def pad6_def)

lemma length_toISOString: "length (toISOString t) = (if year t \<le> 9999 then 24 else 27)"
  by (simp add: toISOString_def str_def)

lemma length_timestampOf: "length (timestampOf t) = 19"
  by (simp add: timestampOf_def replaceColonDot_def length_toISOString)

lemma digit_not_colon_dot: "digit n \<noteq> 58" "digit n \<noteq> 46"
proof -
  have "unat (digit n) = (48 + n mod 10) mod 2 ^ LENGTH(16)"
    unfolding digit_def by (rule unat_of_nat)
  also have "\<dots> = 48 + n mod 10" by simp
  finally have "48 \<le> unat (digit n) \<and> unat (digit n) \<le> 57" by simp
  then show "digit n \<noteq> 58" "digit n \<noteq> 46" by auto
qed

lemma replaceColonDot_pad [simp]:
  "replaceColonDot (pad2 n) = pad2 n" "replaceColonDot (pad4 n) = pad4 n"
  by (simp_all add: replaceColonDot_def pad2_def pad4_def digit_not_colon_dot)

lemma replaceColonDot_append [simp]:
  "replaceColonDot (a @ b) = replaceColonDot a @ replaceColonDot b"
  by (simp add: replaceColonDot_def)


lemma generateFilename_eq:
  "generateFilename e w prefix mimeType =
     (w\<lparr>ticks := Suc (ticks w)\<rparr>,
      prefix @ str ''-'' @ timestampOf (clock e (ticks w))
      @ jsToString (getExtensionFromMimeType mimeType))"
  by (simp add: generateFilename_def newDate_def)

subsection \<open>What saving does to the world\<close>

lemma resolveTarget_events: "events (fst (resolveTarget e w outputPath mimeType d)) = events w"
  by (simp add: resolveTarget_def generateFilename_eq)

lemma resolveTarget_directory:
  "snd (resolveTarget e w outputPath mimeType True) =
     join e (resolve e outputPath)
       (str ''blog-image-'' @ timestampOf (clock e (ticks w))
        @ jsToString (getExtensionFromMimeType mimeType))"
  by (simp add: resolveTarget_def generateFilename_eq str_def)

lemma resolveTarget_file:
  "snd (resolveTarget e w outputPath mimeType False) = resolve e outputPath"
  by (simp add: resolveTarget_def)

lemma saveImage_Inr:
  assumes "saveImage e w b64 outputPath mimeType md = (w', Inr p)"
  shows "\<exists>d fb. isDirectoryPath e outputPath (resolve e outputPath) = Inr d
           \<and> p = addExtensionIfMissing e (snd (resolveTarget e w outputPath mimeType d)) mimeType
           \<and> finalBufferOf b64 mimeType md = Inr fb
           \<and> writeFileResult e p fb = None
           \<and> events w' = events w
               @ (if existsSync e (dirname e (snd (resolveTarget e w outputPath mimeType d)))
                  then [] else [Mkdir (dirname e (snd (resolveTarget e w outputPath mimeType d)))])
               @ [WriteFile p fb]"
proof -
  obtain d where d: "isDirectoryPath e outputPath (resolve e outputPath) = Inr d"
    using assms by (cases "isDirectoryPath e outputPath (resolve e outputPath)")
      (simp_all add: saveImage_def)
  obtain w1 a where t: "resolveTarget e w outputPath mimeType d = (w1, a)"
    by (cases "resolveTarget e w outputPath mimeType d")
  have ev1: "events w1 = events w" using resolveTarget_events [of e w outputPath mimeType d] t by simp
  obtain w2 f where g: "ensureDirectory e w1 (dirname e a) = (w2, f)"
    by (cases "ensureDirectory e w1 (dirname e a)")
  from assms d t g have f: "f = None"
    and wi: "writeImage e w2 b64 a mimeType md = (w', Inr p)"
    by (cases f; simp add: saveImage_def)+
  have ev2: "events w2 = events w @ (if existsSync e (dirname e a) then [] else [Mkdir (dirname e a)])"
    using g ev1 by (auto simp: ensureDirectory_def emit_def split: if_splits)
  from wi obtain fb where fb: "finalBufferOf b64 mimeType md = Inr fb"
    by (cases "finalBufferOf b64 mimeType md") (simp_all add: writeImage_def)
  from wi fb have p: "p = addExtensionIfMissing e a mimeType"
    and wr: "writeFileResult e p fb = None"
    and ev3: "events w' = events w2 @ [WriteFile p fb]"
    by (auto simp: writeImage_def Let_def emit_def split: option.splits)
  from d t p fb wr ev2 ev3 show ?thesis by auto
qed

lemma saveImage_events:
  assumes "saveImage e w b64 outputPath mimeType md = (w', r)"
  shows "\<exists>es. events w' = events w @ es \<and> list_all isFilesystemCall es"
proof (cases "isDirectoryPath e outputPath (resolve e outputPath)")
  case (Inl err)
  with assms show ?thesis by (simp add: saveImage_def)
next
  case (Inr d)
  obtain w1 a where t: "resolveTarget e w outputPath mimeType d = (w1, a)"
    by (cases "resolveTarget e w outputPath mimeType d")
  have ev1: "events w1 = events w" using resolveTarget_events [of e w outputPath mimeType d] t by simp
  obtain w2 f where g: "ensureDirectory e w1 (dirname e a) = (w2, f)"
    by (cases "ensureDirectory e w1 (dirname e a)")
  have ev2: "\<exists>es. events w2 = events w @ es \<and> list_all isFilesystemCall es"
    using g ev1 by (auto simp: ensureDirectory_def emit_def split: if_splits)
  show ?thesis
  proof (cases f)
    case (Some err)
    with assms Inr t g ev2 show ?thesis by (simp add: saveImage_def)
  next
    case None
    with assms Inr t g have wi: "writeImage e w2 b64 a mimeType md = (w', r)"
      by (simp add: saveImage_def)
    then have "\<exists>es. events w' = events w2 @ es \<and> list_all isFilesystemCall es"
      by (auto simp: writeImage_def Let_def emit_def split: sum.splits option.splits)
    with ev2 show ?thesis by auto
  qed
qed

subsection \<open>The handler, stage by stage\<close>

lemma failure_fields [simp]:
  "success (failure msg err) = False" "message (failure msg err) = msg"
  "image (failure msg err) = None" "error_out (failure msg err) = err"
  "warning (failure msg err) = None" "preset_out (failure msg err) = None"
  by (simp_all add: failure_def)

lemma successResult_success [simp]: "success (successResult input preset g fsize p) = True"
  by (simp add: successResult_def Let_def)

lemma execute_accepted:
  assumes "valid (validatePrompt e (prompt_in input))"
      and "outputPathRejection e input = None"
      and "PLATFORM_PRESETS e (format_in input) = Some preset"
  shows "executeGenerateImage e w input =
         (if \<not> isConfigured (createProvider e (provider_in input))
          then (emit IsConfiguredCall w,
                failure (str ''Provider not configured'')
                  (Some (provider_in input
                         @ str '' provider requires API key. Set GOOGLE_API_KEY environment variable.'')))
          else generateAndSave e (emit IsConfiguredCall w) input preset
                 (createProvider e (provider_in input)) (validatePrompt e (prompt_in input)))"
  using assms by (simp add: executeGenerateImage_def Let_def)

lemma execute_rejected:
  assumes "\<not> (valid (validatePrompt e (prompt_in input)) \<and> outputPathRejection e input = None
              \<and> PLATFORM_PRESETS e (format_in input) \<noteq> None)"
  shows "fst (executeGenerateImage e w input) = w"
    and "\<not> success (snd (executeGenerateImage e w input))"
    and "message (snd (executeGenerateImage e w input)) \<noteq> str ''Provider not configured''"
  using assms
  by (auto simp: executeGenerateImage_def Let_def str_def split: option.splits)

lemma generateAndSave_provider_ok:
  assumes "generateImage prov (buildOptions input preset pv) = Inr g"
  shows "generateAndSave e w input preset prov pv =
         saveGenerated e (emit (GenerateImageCall (buildOptions input preset pv)) w) input preset g"
  using assms by (simp add: generateAndSave_def Let_def)

lemma generateAndSave_provider_failed:
  assumes "generateImage prov (buildOptions input preset pv) = Inl err"
  shows "generateAndSave e w input preset prov pv =
         (emit (GenerateImageCall (buildOptions input preset pv)) w,
          failure (str ''Image generation failed'') (Some (safeErrorMessage e err)))"
  using assms by (simp add: generateAndSave_def Let_def)

lemma saveGenerated_saved:
  assumes "saveCall e w input g = (w', Inr p)"
  shows "saveGenerated e w input preset g =
         (w', successResult input preset g (formatFileSize (estimateFileSize (base64Data_gen g))) p)"
  using assms by (simp add: saveGenerated_def Let_def)

lemma saveGenerated_failed:
  assumes "saveCall e w input g = (w', Inl err)"
  shows "saveGenerated e w input preset g =
         (w', failure (str ''Failed to save image'') (Some (safeErrorMessage e err)))"
  using assms by (simp add: saveGenerated_def Let_def)

text \<open>Every successful outcome has run through all stages.\<close>

lemma execute_success_stages:
  assumes run: "executeGenerateImage e w input = (w', r)" and ok: "success r"
  shows "\<exists>preset g p.
           valid (validatePrompt e (prompt_in input))
         \<and> outputPathRejection e input = None
         \<and> PLATFORM_PRESETS e (format_in input) = Some preset
         \<and> isConfigured (createProvider e (provider_in input))
         \<and> generateImage (createProvider e (provider_in input))
               (buildOptions input preset (validatePrompt e (prompt_in input))) = Inr g
         \<and> saveCall e (emit (GenerateImageCall
                 (buildOptions input preset (validatePrompt e (prompt_in input))))
               (emit IsConfiguredCall w)) input g = (w', Inr p)
         \<and> r = successResult input preset g
                 (formatFileSize (estimateFileSize (base64Data_gen g))) p"
proof -
  let ?pv = "validatePrompt e (prompt_in input)"
  let ?prov = "createProvider e (provider_in input)"
  have acc: "valid ?pv \<and> outputPathRejection e input = None
             \<and> PLATFORM_PRESETS e (format_in input) \<noteq> None"
    using execute_rejected(2) [of e input w] run ok by fastforce
  then obtain preset where pr: "PLATFORM_PRESETS e (format_in input) = Some preset" by auto
  have conf: "isConfigured ?prov"
    using execute_accepted [of e input preset w] acc pr run ok by (auto split: if_splits)
  then have gs: "generateAndSave e (emit IsConfiguredCall w) input preset ?prov ?pv = (w', r)"
    using execute_accepted [of e input preset w] acc pr run by simp
  let ?opts = "buildOptions input preset ?pv"
  obtain g where g: "generateImage ?prov ?opts = Inr g"
    using gs ok by (cases "generateImage ?prov ?opts") (auto simp: generateAndSave_provider_failed)
  let ?w2 = "emit (GenerateImageCall ?opts) (emit IsConfiguredCall w)"
  have sg: "saveGenerated e ?w2 input preset g = (w', r)"
    using gs generateAndSave_provider_ok [OF g] by simp
  obtain w3 res where sc: "saveCall e ?w2 input g = (w3, res)" by (cases "saveCall e ?w2 input g")
  obtain p where p: "res = Inr p"
    using sg sc ok by (cases res) (auto simp: saveGenerated_failed)
  have "w3 = w'" and "r = successResult input preset g
                 (formatFileSize (estimateFileSize (base64Data_gen g))) p"
    using sg sc p saveGenerated_saved [of e ?w2 input g w3 p preset] by auto
  with acc pr conf g sc p show ?thesis by blast
qed

lemma chosenOutputPath_events: "events (fst (chosenOutputPath e w input g)) = events w"
  by (simp add: chosenOutputPath_def generateDefaultOutputPath_def generateFilename_eq
      split: option.splits)

lemma saveCall_unfold:
  "\<exists>w2 outputPath now.
      events w2 = events w
    \<and> saveCall e w input g =
        saveImage e w2 (base64Data_gen g) outputPath (mimeType_gen g)
          (Some (buildMetadata input g now))"
proof -
  obtain w1 outputPath where c: "chosenOutputPath e w input g = (w1, outputPath)"
    by (cases "chosenOutputPath e w input g")
  have "events w1 = events w" using chosenOutputPath_events [of e w input g] c by simp
  then show ?thesis
    by (intro exI [of _ "w1\<lparr>ticks := Suc (ticks w1)\<rparr>"] exI [of _ outputPath]
        exI [of _ "clock e (ticks w1)"])
       (simp add: saveCall_def c newDate_def)
qed

subsection \<open>The example runs\<close>

lemma onePixelBase64_decodes: "base64Decode onePixelBase64 = onePixelPng"
  by (simp add: onePixelBase64_def base64Decode_def sextet_def str_def onePixelPng_def)

text \<open>Code units above \<open>0xFF\<close> count by their low byte; decoding stops at the padding.\<close>

lemma base64_reads_low_bytes:
  "base64Decode (str ''QUJD'' @ [321, 321, 321, 321]) = [65, 66, 67, 0, 0, 0]"
  by (simp add: base64Decode_def sextet_def str_def)

lemma base64_low_byte_of_first_unit:
  "base64Decode (361 # tl onePixelBase64) = onePixelPng"
  by (simp add: onePixelBase64_def base64Decode_def sextet_def str_def onePixelPng_def)

lemma base64_stops_at_padding:
  "base64Decode (str ''QQ==QUJD'') = [65]" "base64Decode (str ''QU JD'') = [65, 66, 67]"
  by (simp_all add: base64Decode_def sextet_def str_def)

lemma length_onePixelBase64: "length onePixelBase64 = 96"
  by (simp add: onePixelBase64_def str_def)

lemma toISOString_exampleInstant:
  "toISOString exampleInstant = str ''2025-12-02T10:30:05.123Z''"
  by (simp add: toISOString_def exampleInstant_def pad2_def pad3_def pad4_def digit_def str_def)

lemma exampleMetadata_entries:
  "specEntries (exampleMetadata sunsetInput) =
     [(str ''Description'', str ''sunset''),
      (str ''AI-Model'', str ''gemini-2.5-flash-image''),
      (str ''AI-Provider'', str ''gemini''),
      (str ''Image-Format'', str ''ghost-banner''),
      (str ''Creation-Time'', str ''2025-12-02T10:30:05.123Z''),
      (str ''Software'', softwareName), (str ''Source'', sourceUrl)]"
  by (simp add: specEntries_def exampleMetadata_def buildMetadata_def sunsetInput_def exampleImage_def entry_def
      toISOString_exampleInstant) (simp add: str_def)

lemma exampleMetadata_encodable:
  "chunksEncodable (exampleMetadata sunsetInput)"
  by (simp add: chunksEncodable_def exampleMetadata_entries encodable_def softwareName_def
      sourceUrl_def str_def utf8_1_def)

lemma exampleMetadata_overhead:
  "overhead (exampleMetadata sunsetInput) = 319"
  by (simp add: overhead_def exampleMetadata_entries specChunkLength_def softwareName_def
      sourceUrl_def str_def utf8_1_def)


lemma facebookMetadata_entries:
  "specEntries (exampleMetadata facebookInput) =
     [(str ''Description'', str ''sunset''),
      (str ''AI-Model'', str ''gemini-2.5-flash-image''),
      (str ''AI-Provider'', str ''gemini''),
      (str ''Image-Format'', str ''facebook-post''),
      (str ''Creation-Time'', str ''2025-12-02T10:30:05.123Z''),
      (str ''Software'', softwareName), (str ''Source'', sourceUrl)]"
  by (simp add: specEntries_def exampleMetadata_def buildMetadata_def facebookInput_def
      sunsetInput_def exampleImage_def entry_def toISOString_exampleInstant) (simp add: str_def)

lemma facebookMetadata_encodable: "chunksEncodable (exampleMetadata facebookInput)"
  by (simp add: chunksEncodable_def facebookMetadata_entries encodable_def softwareName_def
      sourceUrl_def str_def utf8_1_def)

lemma example_embed:
  assumes "chunksEncodable (exampleMetadata input)"
  shows "embedPngMetadata onePixelPng (exampleMetadata input) = Inr (exampleFile input)"
  using assms
  by (simp add: embedPngMetadata_cases onePixelPng_signature onePixelPng_length
      onePixelPng_declaredEnd exampleFile_def)

lemma example_fields [simp]:
  "base64Data_gen exampleImage = onePixelBase64"
  "mimeType_gen exampleImage = str ''image/png''"
  "outputPath_in sunsetInput = Some (str ''/out/sunset.png'')"
  "outputPath_in facebookInput = Some (str ''/out/sunset.png'')"
  "prompt_in facebookInput = prompt_in sunsetInput"
  "provider_in facebookInput = provider_in sunsetInput"
  "format_in sunsetInput = str ''ghost-banner''"
  "format_in facebookInput = str ''facebook-post''"
  by (simp_all add: exampleImage_def sunsetInput_def facebookInput_def)

lemma example_paths:
  "posixDirname (str ''/out/sunset.png'') = str ''/out''"
  "posixExtname (str ''/out/sunset.png'') = str ''.png''"
  "\<not> endsWith (str ''/out/sunset.png'') 47"
  "\<not> endsWith (str ''/out/sunset.png'') 92"
  "str ''/out/sunset.png'' \<noteq> str ''/out''"
  "str ''.png'' \<noteq> []"
  by (simp_all add: posixDirname_def posixExtname_def endsWith_def str_def)

lemma example_saveCall:
  assumes "outputPath_in input = Some (str ''/out/sunset.png'')"
      and "chunksEncodable (exampleMetadata input)"
  shows "saveCall exampleEnv w input exampleImage =
         (emit (WriteFile (str ''/out/sunset.png'') (exampleFile input)) (w\<lparr>ticks := Suc (ticks w)\<rparr>),
          Inr (str ''/out/sunset.png''))"
  using example_embed [OF assms(2)]
  by (simp add: saveCall_def chosenOutputPath_def assms(1) newDate_def saveImage_def
      isDirectoryPath_def resolveTarget_def ensureDirectory_def writeImage_def
      addExtensionIfMissing_def finalBufferOf_def exampleEnv_def example_paths
      onePixelBase64_decodes exampleMetadata_def Let_def)

lemma readOnly_saveCall:
  assumes "outputPath_in input = Some (str ''/out/sunset.png'')"
      and "chunksEncodable (exampleMetadata input)"
  shows "saveCall readOnlyEnv w input exampleImage =
         (emit (WriteFile (str ''/out/sunset.png'') (exampleFile input)) (w\<lparr>ticks := Suc (ticks w)\<rparr>),
          Inl permissionDenied)"
  using example_embed [OF assms(2)]
  by (simp add: saveCall_def chosenOutputPath_def assms(1) newDate_def saveImage_def
      isDirectoryPath_def resolveTarget_def ensureDirectory_def writeImage_def
      addExtensionIfMissing_def finalBufferOf_def readOnlyEnv_def exampleEnv_def example_paths
      onePixelBase64_decodes exampleMetadata_def Let_def)

lemma example_size: "formatFileSize (estimateFileSize onePixelBase64) = str ''72 B''"
  by (simp add: estimateFileSize_def length_onePixelBase64 formatFileSize_def showNat.simps
      digit_def str_def)

lemma example_accepts:
  assumes "outputPath_in input = Some (str ''/out/sunset.png'')"
  shows "valid (validatePrompt exampleEnv (prompt_in input))"
    and "outputPathRejection exampleEnv input = None"
    and "validatePrompt exampleEnv (prompt_in input) = accept (prompt_in input)"
  using assms by (simp_all add: exampleEnv_def accept_def outputPathRejection_def)

lemma example_run:
  assumes path: "outputPath_in input = Some (str ''/out/sunset.png'')"
      and enc: "chunksEncodable (exampleMetadata input)"
      and pre: "examplePresets (format_in input) = Some preset"
  shows "executeGenerateImage exampleEnv world0 input =
         (exampleWorld input preset,
          successResult input preset exampleImage (str ''72 B'') (str ''/out/sunset.png''))"
proof -
  have p: "PLATFORM_PRESETS exampleEnv (format_in input) = Some preset"
    using pre by (simp add: exampleEnv_def)
  have c: "isConfigured (createProvider exampleEnv (provider_in input))"
    by (simp add: exampleEnv_def exampleProvider_def)
  have g: "generateImage (createProvider exampleEnv (provider_in input))
             (buildOptions input preset (validatePrompt exampleEnv (prompt_in input)))
           = Inr exampleImage"
    by (simp add: exampleEnv_def exampleProvider_def)
  have "executeGenerateImage exampleEnv world0 input =
        saveGenerated exampleEnv
          (emit (GenerateImageCall (buildOptions input preset
                   (validatePrompt exampleEnv (prompt_in input))))
             (emit IsConfiguredCall world0)) input preset exampleImage"
    using execute_accepted [OF example_accepts(1,2) [OF path] p, of world0] c
      generateAndSave_provider_ok [OF g] by simp
  also have "\<dots> = (exampleWorld input preset,
          successResult input preset exampleImage (str ''72 B'') (str ''/out/sunset.png''))"
    by (simp add: saveGenerated_saved [OF example_saveCall [OF path enc]] example_size
        example_accepts(3) [OF path] exampleWorld_def exampleOptions_def emit_def world0_def)
  finally show ?thesis .
qed

lemma readOnly_run:
  "executeGenerateImage readOnlyEnv world0 sunsetInput =
     (exampleWorld sunsetInput ghostBanner,
      failure (str ''Failed to save image'') (Some (str ''EACCES: permission denied, open /out/sunset.png'')))"
proof -
  have path: "outputPath_in sunsetInput = Some (str ''/out/sunset.png'')" by simp
  have v: "valid (validatePrompt readOnlyEnv (prompt_in sunsetInput))"
    and r: "outputPathRejection readOnlyEnv sunsetInput = None"
    and a: "validatePrompt readOnlyEnv (prompt_in sunsetInput) = accept (prompt_in sunsetInput)"
    by (simp_all add: readOnlyEnv_def exampleEnv_def accept_def outputPathRejection_def)
  have p: "PLATFORM_PRESETS readOnlyEnv (format_in sunsetInput) = Some ghostBanner"
    by (simp add: readOnlyEnv_def exampleEnv_def examplePresets_def)
  have c: "isConfigured (createProvider readOnlyEnv (provider_in sunsetInput))"
    by (simp add: readOnlyEnv_def exampleEnv_def exampleProvider_def)
  have g: "generateImage (createProvider readOnlyEnv (provider_in sunsetInput))
             (buildOptions sunsetInput ghostBanner (validatePrompt readOnlyEnv (prompt_in sunsetInput)))
           = Inr exampleImage"
    by (simp add: readOnlyEnv_def exampleEnv_def exampleProvider_def)
  have m: "safeErrorMessage readOnlyEnv permissionDenied
           = str ''EACCES: permission denied, open /out/sunset.png''"
    by (simp add: readOnlyEnv_def exampleEnv_def errorMessage_def permissionDenied_def)
  have "executeGenerateImage readOnlyEnv world0 sunsetInput =
        saveGenerated readOnlyEnv
          (emit (GenerateImageCall (buildOptions sunsetInput ghostBanner
                   (validatePrompt readOnlyEnv (prompt_in sunsetInput))))
             (emit IsConfiguredCall world0)) sunsetInput ghostBanner exampleImage"
    using execute_accepted [OF v r p, of world0] c generateAndSave_provider_ok [OF g] by simp
  also have "\<dots> = (exampleWorld sunsetInput ghostBanner,
      failure (str ''Failed to save image'') (Some (str ''EACCES: permission denied, open /out/sunset.png'')))"
    by (simp add: saveGenerated_failed [OF readOnly_saveCall [OF path exampleMetadata_encodable]]
        m a exampleWorld_def exampleOptions_def emit_def world0_def)
  finally show ?thesis .
qed

lemmas sunset_run =
  example_run [of sunsetInput ghostBanner, OF example_fields(3) exampleMetadata_encodable]

lemmas facebook_run =
  example_run [of facebookInput facebookPost, OF example_fields(4) facebookMetadata_encodable]

subsection \<open>Geometry\<close>

lemma dimensionDriftWarning_names_both:
  "\<exists>x y z. dimensionDriftWarning aw ah preset =
       x @ sizeText aw ah @ y @ sizeText (width_preset preset) (height_preset preset) @ z"
  unfolding dimensionDriftWarning_def by (metis append.assoc)

lemma example_presets_lookup:
  "examplePresets (str ''ghost-banner'') = Some ghostBanner"
  "examplePresets (str ''facebook-post'') = Some facebookPost"
  by (simp_all add: examplePresets_def str_def)

lemma example_presets:
  "examplePresets (format_in sunsetInput) = Some ghostBanner"
  "examplePresets (format_in facebookInput) = Some facebookPost"
  by (simp_all add: example_presets_lookup)

text \<open>
  A run with the preset \<open>facebook-post\<close> (1200x630, aspect ratio not native) and a
  provider that answers with 1536x864: the outcome reports 1536x864, not the requested
  size.
\<close>

theorem non_native_preset_reports_actual_size_counterexample:
  "\<not> nativeAspectRatio facebookPost
   \<and> PLATFORM_PRESETS exampleEnv (format_in facebookInput) = Some facebookPost
   \<and> success (snd (executeGenerateImage exampleEnv world0 facebookInput))
   \<and> map_option dimensions (image (snd (executeGenerateImage exampleEnv world0 facebookInput)))
       = Some \<lparr> width_dim = 1536, height_dim = 864,
                 requestedWidth = Some 1200, requestedHeight = Some 630 \<rparr>"
proof -
  have pr: "PLATFORM_PRESETS exampleEnv (format_in facebookInput) = Some facebookPost"
    by (simp add: exampleEnv_def example_presets_lookup)
  have n: "\<not> nativeAspectRatio facebookPost" by (simp add: facebookPost_def)
  show ?thesis
    unfolding facebook_run [OF example_presets(2)] snd_conv
    using pr n by (simp add: successResult_def Let_def facebookPost_def exampleImage_def)
qed

text \<open>
  Claim C2, amended. In every successful outcome the reported dimensions are the
  provider's actual ones where it gives them and the preset's otherwise, whether or not the
  aspect ratio is native; the requested dimensions are reported beside them. When the
  preset's aspect ratio is not native, the native-mismatch warning is produced whatever
  the dimensions are. When it is native and the reported dimensions differ from the
  preset's, the dimension-drift warning is produced, and its text names both sizes. When
  it is native and they are equal, there is no warning. So a warning is there exactly when
  the aspect ratio is not native or the sizes differ.
\<close>

theorem geometry_reconciliation:
  assumes "executeGenerateImage e w input = (w', r)" and "success r"
  shows "\<exists>preset g img aw ah.
           PLATFORM_PRESETS e (format_in input) = Some preset
         \<and> generateImage (createProvider e (provider_in input))
               (buildOptions input preset (validatePrompt e (prompt_in input))) = Inr g
         \<and> image r = Some img
         \<and> aw = (case width_gen g of Some x \<Rightarrow> x | None \<Rightarrow> width_preset preset)
         \<and> ah = (case height_gen g of Some y \<Rightarrow> y | None \<Rightarrow> height_preset preset)
         \<and> dimensions img = \<lparr> width_dim = aw, height_dim = ah,
                                 requestedWidth = Some (width_preset preset),
                                 requestedHeight = Some (height_preset preset) \<rparr>
         \<and> warning r =
               (if \<not> nativeAspectRatio preset then Some (nativeMismatchWarning preset)
                else if (aw, ah) \<noteq> (width_preset preset, height_preset preset)
                  then Some (dimensionDriftWarning aw ah preset)
                else None)
         \<and> (\<exists>x y z. dimensionDriftWarning aw ah preset =
                x @ sizeText aw ah @ y @ sizeText (width_preset preset) (height_preset preset) @ z)
         \<and> ((warning r \<noteq> None) =
              (\<not> nativeAspectRatio preset \<or> (aw, ah) \<noteq> (width_preset preset, height_preset preset)))"
proof -
  from execute_success_stages [OF assms]
  obtain preset g p where
    pr: "PLATFORM_PRESETS e (format_in input) = Some preset"
    and g: "generateImage (createProvider e (provider_in input))
               (buildOptions input preset (validatePrompt e (prompt_in input))) = Inr g"
    and r: "r = successResult input preset g
                 (formatFileSize (estimateFileSize (base64Data_gen g))) p"
    by blast
  let ?aw = "case width_gen g of Some x \<Rightarrow> x | None \<Rightarrow> width_preset preset"
  let ?ah = "case height_gen g of Some y \<Rightarrow> y | None \<Rightarrow> height_preset preset"
  obtain img where img: "image r = Some img"
    and dims: "dimensions img = \<lparr> width_dim = ?aw, height_dim = ?ah,
                                 requestedWidth = Some (width_preset preset),
                                 requestedHeight = Some (height_preset preset) \<rparr>"
    by (simp add: r successResult_def Let_def)
  have warn: "warning r =
               (if \<not> nativeAspectRatio preset then Some (nativeMismatchWarning preset)
                else if (?aw, ?ah) \<noteq> (width_preset preset, height_preset preset)
                  then Some (dimensionDriftWarning ?aw ?ah preset)
                else None)"
    by (simp add: r successResult_def Let_def)
  have iff: "(warning r \<noteq> None) =
              (\<not> nativeAspectRatio preset \<or> (?aw, ?ah) \<noteq> (width_preset preset, height_preset preset))"
    unfolding warn by simp
  from pr g img dims warn iff dimensionDriftWarning_names_both [of ?aw ?ah preset]
  show ?thesis by blast
qed

theorem geometry_reconciliation_witness:
  "success (snd (executeGenerateImage exampleEnv world0 sunsetInput))
   \<and> PLATFORM_PRESETS exampleEnv (format_in sunsetInput) = Some ghostBanner
   \<and> nativeAspectRatio ghostBanner
   \<and> map_option dimensions (image (snd (executeGenerateImage exampleEnv world0 sunsetInput)))
       = Some \<lparr> width_dim = 1536, height_dim = 864,
                 requestedWidth = Some 1200, requestedHeight = Some 675 \<rparr>
   \<and> warning (snd (executeGenerateImage exampleEnv world0 sunsetInput))
       = Some (dimensionDriftWarning 1536 864 ghostBanner)"
proof -
  let ?run = "executeGenerateImage exampleEnv world0 sunsetInput"
  have h1: "?run = (fst ?run, snd ?run)" by simp
  have h2: "success (snd ?run)"
    by (simp add: sunset_run [OF example_presets(1)])
  have pr: "PLATFORM_PRESETS exampleEnv (format_in sunsetInput) = Some ghostBanner"
    by (simp add: exampleEnv_def example_presets_lookup)
  have gen: "\<And>opts. generateImage (createProvider exampleEnv (provider_in sunsetInput)) opts
                 = Inr exampleImage"
    by (simp add: exampleEnv_def exampleProvider_def)
  from geometry_reconciliation [OF h1 h2]
  obtain preset g img aw ah where
    a: "PLATFORM_PRESETS exampleEnv (format_in sunsetInput) = Some preset"
    and b: "generateImage (createProvider exampleEnv (provider_in sunsetInput))
               (buildOptions sunsetInput preset
                  (validatePrompt exampleEnv (prompt_in sunsetInput))) = Inr g"
    and c: "image (snd ?run) = Some img"
    and d: "aw = (case width_gen g of Some x \<Rightarrow> x | None \<Rightarrow> width_preset preset)"
    and e: "ah = (case height_gen g of Some y \<Rightarrow> y | None \<Rightarrow> height_preset preset)"
    and f: "dimensions img = \<lparr> width_dim = aw, height_dim = ah,
                                 requestedWidth = Some (width_preset preset),
                                 requestedHeight = Some (height_preset preset) \<rparr>"
    and k: "warning (snd ?run) =
               (if \<not> nativeAspectRatio preset then Some (nativeMismatchWarning preset)
                else if (aw, ah) \<noteq> (width_preset preset, height_preset preset)
                  then Some (dimensionDriftWarning aw ah preset)
                else None)"
    by blast
  have p: "preset = ghostBanner" using a pr by simp
  have g: "g = exampleImage" using b gen by simp
  have aw: "aw = 1536" and ah: "ah = 864"
    using d e by (simp_all add: g exampleImage_def)
  have n: "nativeAspectRatio ghostBanner" by (simp add: ghostBanner_def)
  have "map_option dimensions (image (snd ?run))
         = Some \<lparr> width_dim = 1536, height_dim = 864,
                   requestedWidth = Some 1200, requestedHeight = Some 675 \<rparr>"
    using c f by (simp add: aw ah p ghostBanner_def)
  moreover have "warning (snd ?run) = Some (dimensionDriftWarning 1536 864 ghostBanner)"
    using k by (simp add: aw ah p ghostBanner_def)
  ultimately show ?thesis using h2 pr n by blast
qed

subsection \<open>The reported size\<close>

lemma onePixel_written_size: "length (exampleFile sunsetInput) = 389"
proof -
  have "length (exampleFile sunsetInput) = 70 + overhead (exampleMetadata sunsetInput)"
    by (simp add: exampleFile_def onePixelPng_length length_concat_specChunks overhead_def)
  then show ?thesis by (simp add: exampleMetadata_overhead)
qed

text \<open>
  A run that saves a one-pixel PNG: 96 base64 characters, 70 bytes decoded, 389 bytes
  written after embedding. The size reported is \<open>72 B\<close>.
\<close>

theorem reported_size_is_not_written_size_counterexample:
  "success (snd (executeGenerateImage exampleEnv world0 sunsetInput))
   \<and> map_option fileSize (image (snd (executeGenerateImage exampleEnv world0 sunsetInput)))
       = Some (str ''72 B'')
   \<and> map length (writtenBuffers (events (fst (executeGenerateImage exampleEnv world0 sunsetInput))))
       = [389]
   \<and> formatFileSize 389 = str ''389 B''
   \<and> str ''72 B'' \<noteq> str ''389 B''"
proof -
  have f: "formatFileSize 389 = str ''389 B''"
    by (simp add: formatFileSize_def showNat.simps digit_def str_def)
  have n: "str ''72 B'' \<noteq> str ''389 B''" by (simp add: str_def)
  show ?thesis
    unfolding sunset_run [OF example_presets(1)] snd_conv fst_conv
    using f n
    by (simp add: successResult_def Let_def exampleWorld_def onePixel_written_size)
qed

text \<open>
  Claim C5, amended. In every successful outcome the reported \<open>fileSize\<close> is the
  formatted estimate \<open>floor (3 * n / 4)\<close>, where \<open>n\<close> is the length of the provider's
  base64 text; it is computed before the image is saved and does not depend on the buffer
  that is written.
\<close>

theorem reported_size_is_base64_estimate:
  assumes "executeGenerateImage e w input = (w', r)" and "success r"
  shows "\<exists>preset g img.
           generateImage (createProvider e (provider_in input))
               (buildOptions input preset (validatePrompt e (prompt_in input))) = Inr g
         \<and> image r = Some img
         \<and> fileSize img = formatFileSize (length (base64Data_gen g) * 3 div 4)"
proof -
  from execute_success_stages [OF assms]
  obtain preset g p where
    g: "generateImage (createProvider e (provider_in input))
               (buildOptions input preset (validatePrompt e (prompt_in input))) = Inr g"
    and r: "r = successResult input preset g
                 (formatFileSize (estimateFileSize (base64Data_gen g))) p"
    by blast
  obtain img where "image r = Some img"
    and "fileSize img = formatFileSize (length (base64Data_gen g) * 3 div 4)"
    by (simp add: r successResult_def Let_def estimateFileSize_def)
  with g show ?thesis by blast
qed

theorem reported_size_is_base64_estimate_witness:
  "success (snd (executeGenerateImage exampleEnv world0 sunsetInput))
   \<and> length (base64Data_gen exampleImage) = 96
   \<and> map_option fileSize (image (snd (executeGenerateImage exampleEnv world0 sunsetInput)))
       = Some (formatFileSize 72)"
proof -
  let ?run = "executeGenerateImage exampleEnv world0 sunsetInput"
  have h1: "?run = (fst ?run, snd ?run)" by simp
  have h2: "success (snd ?run)" by (simp add: sunset_run [OF example_presets(1)])
  have gen: "\<And>opts. generateImage (createProvider exampleEnv (provider_in sunsetInput)) opts
                 = Inr exampleImage"
    by (simp add: exampleEnv_def exampleProvider_def)
  from reported_size_is_base64_estimate [OF h1 h2]
  obtain preset g img where
    b: "generateImage (createProvider exampleEnv (provider_in sunsetInput))
               (buildOptions sunsetInput preset
                  (validatePrompt exampleEnv (prompt_in sunsetInput))) = Inr g"
    and c: "image (snd ?run) = Some img"
    and d: "fileSize img = formatFileSize (length (base64Data_gen g) * 3 div 4)"
    by blast
  have g: "g = exampleImage" using b gen by simp
  have "map_option fileSize (image (snd ?run)) = Some (formatFileSize 72)"
    using c d by (simp add: g length_onePixelBase64)
  then show ?thesis using h2 by (simp add: length_onePixelBase64)
qed

subsection \<open>A failed save\<close>

text \<open>
  A run in which the provider answers and \<open>writeFile\<close> then fails with a permission
  error: neither the message nor the error text of the outcome says that an image was
  generated.
\<close>

theorem save_failure_text_counterexample:
  "generateImage (createProvider readOnlyEnv (provider_in sunsetInput))
      (exampleOptions sunsetInput ghostBanner) = Inr exampleImage
   \<and> list_ex isGenerateImageCall (events (fst (executeGenerateImage readOnlyEnv world0 sunsetInput)))
   \<and> snd (executeGenerateImage readOnlyEnv world0 sunsetInput)
       = failure (str ''Failed to save image'')
           (Some (str ''EACCES: permission denied, open /out/sunset.png''))
   \<and> \<not> contains (str ''generated'') (str ''Failed to save image'')
   \<and> \<not> contains (str ''generated'') (str ''EACCES: permission denied, open /out/sunset.png'')"
proof -
  have g: "generateImage (createProvider readOnlyEnv (provider_in sunsetInput))
      (exampleOptions sunsetInput ghostBanner) = Inr exampleImage"
    by (simp add: readOnlyEnv_def exampleEnv_def exampleProvider_def)
  have c1: "\<not> contains (str ''generated'') (str ''Failed to save image'')"
    by (simp add: str_def)
  have c2: "\<not> contains (str ''generated'') (str ''EACCES: permission denied, open /out/sunset.png'')"
    by (simp add: str_def)
  show ?thesis
    unfolding readOnly_run snd_conv fst_conv
    using g c1 c2 by (simp add: exampleWorld_def)
qed

text \<open>
  Claim C6, amended. Whenever the provider call succeeds and the save step then raises
  an error, the outcome is a failure whose message is \<open>Failed to save image\<close>, which is
  not the message \<open>Image generation failed\<close> of a generation failure, and whose error text
  is \<open>safeErrorMessage\<close> of the error raised; it carries no image, and no success
  outcome is produced.
\<close>

theorem save_failure_outcome:
  assumes "valid (validatePrompt e (prompt_in input))"
      and "outputPathRejection e input = None"
      and "PLATFORM_PRESETS e (format_in input) = Some preset"
      and "isConfigured (createProvider e (provider_in input))"
      and "generateImage (createProvider e (provider_in input))
             (buildOptions input preset (validatePrompt e (prompt_in input))) = Inr g"
      and "saveCall e (emit (GenerateImageCall
                 (buildOptions input preset (validatePrompt e (prompt_in input))))
               (emit IsConfiguredCall w)) input g = (w', Inl err)"
  shows "executeGenerateImage e w input =
           (w', failure (str ''Failed to save image'') (Some (safeErrorMessage e err)))
       \<and> \<not> success (snd (executeGenerateImage e w input))
       \<and> image (snd (executeGenerateImage e w input)) = None
       \<and> message (snd (executeGenerateImage e w input)) = str ''Failed to save image''
       \<and> message (snd (executeGenerateImage e w input)) \<noteq> str ''Image generation failed''
       \<and> error_out (snd (executeGenerateImage e w input)) = Some (safeErrorMessage e err)"
proof -
  have "executeGenerateImage e w input =
           (w', failure (str ''Failed to save image'') (Some (safeErrorMessage e err)))"
    using execute_accepted [OF assms(1-3), of w] assms(4)
      generateAndSave_provider_ok [OF assms(5)] saveGenerated_failed [OF assms(6)]
    by simp
  moreover have "str ''Failed to save image'' \<noteq> str ''Image generation failed''"
    by (simp add: str_def)
  ultimately show ?thesis by simp
qed

theorem save_failure_outcome_witness:
  "valid (validatePrompt readOnlyEnv (prompt_in sunsetInput))
   \<and> outputPathRejection readOnlyEnv sunsetInput = None
   \<and> PLATFORM_PRESETS readOnlyEnv (format_in sunsetInput) = Some ghostBanner
   \<and> isConfigured (createProvider readOnlyEnv (provider_in sunsetInput))
   \<and> generateImage (createProvider readOnlyEnv (provider_in sunsetInput))
        (buildOptions sunsetInput ghostBanner (validatePrompt readOnlyEnv (prompt_in sunsetInput)))
       = Inr exampleImage
   \<and> snd (saveCall readOnlyEnv (emit (GenerateImageCall
                 (buildOptions sunsetInput ghostBanner
                    (validatePrompt readOnlyEnv (prompt_in sunsetInput))))
               (emit IsConfiguredCall world0)) sunsetInput exampleImage) = Inl permissionDenied
   \<and> snd (executeGenerateImage readOnlyEnv world0 sunsetInput)
       = failure (str ''Failed to save image'') (Some (safeErrorMessage readOnlyEnv permissionDenied))"
proof -
  let ?pv = "validatePrompt readOnlyEnv (prompt_in sunsetInput)"
  let ?w2 = "emit (GenerateImageCall (buildOptions sunsetInput ghostBanner ?pv))
               (emit IsConfiguredCall world0)"
  have h1: "valid ?pv"
    and h2: "outputPathRejection readOnlyEnv sunsetInput = None"
    by (simp_all add: readOnlyEnv_def exampleEnv_def accept_def outputPathRejection_def)
  have h3: "PLATFORM_PRESETS readOnlyEnv (format_in sunsetInput) = Some ghostBanner"
    by (simp add: readOnlyEnv_def exampleEnv_def example_presets_lookup)
  have h4: "isConfigured (createProvider readOnlyEnv (provider_in sunsetInput))"
    by (simp add: readOnlyEnv_def exampleEnv_def exampleProvider_def)
  have h5: "generateImage (createProvider readOnlyEnv (provider_in sunsetInput))
        (buildOptions sunsetInput ghostBanner ?pv) = Inr exampleImage"
    by (simp add: readOnlyEnv_def exampleEnv_def exampleProvider_def)
  have s: "snd (saveCall readOnlyEnv ?w2 sunsetInput exampleImage) = Inl permissionDenied"
    by (simp add: readOnly_saveCall [OF example_fields(3) exampleMetadata_encodable])
  then have h6: "saveCall readOnlyEnv ?w2 sunsetInput exampleImage
                 = (fst (saveCall readOnlyEnv ?w2 sunsetInput exampleImage), Inl permissionDenied)"
    by (metis prod.collapse)
  from save_failure_outcome [OF h1 h2 h3 h4 h5 h6]
  have "snd (executeGenerateImage readOnlyEnv world0 sunsetInput)
       = failure (str ''Failed to save image'') (Some (safeErrorMessage readOnlyEnv permissionDenied))"
    by simp
  with h1 h2 h3 h4 h5 s show ?thesis by blast
qed

subsection \<open>A provider that is not configured\<close>

lemma gemini_without_key: "\<not> geminiIsConfigured None None"
  by (simp add: geminiIsConfigured_def geminiClient_def)

lemma gemini_with_key: "k \<noteq> [] \<Longrightarrow> geminiIsConfigured None (Some k)"
  by (simp add: geminiIsConfigured_def geminiClient_def)

text \<open>
  Claim C8. When the provider is not configured, no outcome is a success, and the run
  makes no call of \<open>generateImage\<close>, no \<open>mkdir\<close> and no \<open>writeFile\<close>. The provider is
  asked exactly when the request has passed the checks of prompt, output path and format,
  and whenever it is asked (and so reports that it is not configured) the outcome is the
  failure \<open>Provider not configured\<close>.
\<close>

theorem unconfigured_provider_stops_the_pipeline:
  assumes "\<not> isConfigured (createProvider e (provider_in input))"
      and "executeGenerateImage e w input = (w', r)"
  shows "\<not> success r
       \<and> (\<exists>es. events w' = events w @ es
              \<and> \<not> list_ex isGenerateImageCall es
              \<and> \<not> list_ex isFilesystemCall es
              \<and> ((IsConfiguredCall \<in> set es) =
                   (valid (validatePrompt e (prompt_in input))
                    \<and> outputPathRejection e input = None
                    \<and> PLATFORM_PRESETS e (format_in input) \<noteq> None))
              \<and> (IsConfiguredCall \<in> set es \<longrightarrow>
                   r = failure (str ''Provider not configured'')
                         (Some (provider_in input
                                @ str '' provider requires API key. Set GOOGLE_API_KEY environment variable.''))))"
proof (cases "valid (validatePrompt e (prompt_in input)) \<and> outputPathRejection e input = None
              \<and> PLATFORM_PRESETS e (format_in input) \<noteq> None")
  case True
  then obtain preset where pr: "PLATFORM_PRESETS e (format_in input) = Some preset" by auto
  have run: "(w', r) = (emit IsConfiguredCall w,
                failure (str ''Provider not configured'')
                  (Some (provider_in input
                         @ str '' provider requires API key. Set GOOGLE_API_KEY environment variable.'')))"
    using execute_accepted [of e input preset w] True pr assms by simp
  then have ev: "events w' = events w @ [IsConfiguredCall]" by (simp add: emit_def)
  have r: "r = failure (str ''Provider not configured'')
                  (Some (provider_in input
                         @ str '' provider requires API key. Set GOOGLE_API_KEY environment variable.''))"
    using run by simp
  show ?thesis
    using r True ev
    by (intro conjI exI [of _ "[IsConfiguredCall]"]) simp_all
next
  case False
  have "w' = w" and "\<not> success r"
    using execute_rejected(1,2) [OF False, of w] assms(2) by simp_all
  then show ?thesis
    using False by (intro conjI exI [of _ "[]"]) simp_all
qed

theorem unconfigured_provider_stops_the_pipeline_witness:
  "\<not> isConfigured (createProvider unconfiguredEnv (provider_in sunsetInput))
   \<and> events (fst (executeGenerateImage unconfiguredEnv world0 sunsetInput)) = [IsConfiguredCall]
   \<and> snd (executeGenerateImage unconfiguredEnv world0 sunsetInput)
       = failure (str ''Provider not configured'')
           (Some (str ''gemini provider requires API key. Set GOOGLE_API_KEY environment variable.''))"
proof -
  let ?run = "executeGenerateImage unconfiguredEnv world0 sunsetInput"
  have h1: "\<not> isConfigured (createProvider unconfiguredEnv (provider_in sunsetInput))"
    by (simp add: unconfiguredEnv_def unconfiguredProvider_def gemini_without_key)
  have h2: "?run = (fst ?run, snd ?run)" by simp
  have acc: "valid (validatePrompt unconfiguredEnv (prompt_in sunsetInput))
             \<and> outputPathRejection unconfiguredEnv sunsetInput = None
             \<and> PLATFORM_PRESETS unconfiguredEnv (format_in sunsetInput) \<noteq> None"
    by (simp add: unconfiguredEnv_def exampleEnv_def accept_def outputPathRejection_def
        example_presets_lookup)
  from unconfigured_provider_stops_the_pipeline [OF h1 h2]
  obtain es where ev: "events (fst ?run) = events world0 @ es"
    and nf: "\<not> list_ex isFilesystemCall es" and ng: "\<not> list_ex isGenerateImageCall es"
    and asked: "(IsConfiguredCall \<in> set es) =
                   (valid (validatePrompt unconfiguredEnv (prompt_in sunsetInput))
                    \<and> outputPathRejection unconfiguredEnv sunsetInput = None
                    \<and> PLATFORM_PRESETS unconfiguredEnv (format_in sunsetInput) \<noteq> None)"
    and out: "IsConfiguredCall \<in> set es \<longrightarrow>
                   snd ?run = failure (str ''Provider not configured'')
                         (Some (provider_in sunsetInput
                                @ str '' provider requires API key. Set GOOGLE_API_KEY environment variable.''))"
    by blast
  have r: "snd ?run = failure (str ''Provider not configured'')
           (Some (str ''gemini provider requires API key. Set GOOGLE_API_KEY environment variable.''))"
    using out asked acc by (simp add: sunsetInput_def str_def)
  have "fst ?run = emit IsConfiguredCall world0"
    using execute_accepted [of unconfiguredEnv sunsetInput ghostBanner world0] acc h1
    by (simp add: unconfiguredEnv_def exampleEnv_def example_presets_lookup)
  then have "events (fst ?run) = [IsConfiguredCall]" by (simp add: emit_def world0_def)
  with h1 r show ?thesis by blast
qed

subsection \<open>What is returned and what is written\<close>

lemma overhead_positive: "0 < overhead md"
  by (simp add: overhead_def specEntries_def specChunkLength_def)

lemma writtenBuffers_append [simp]:
  "writtenBuffers (xs @ ys) = writtenBuffers xs @ writtenBuffers ys"
  by (induction xs rule: writtenBuffers.induct) simp_all

lemma finalBufferOf_cases:
  assumes "finalBufferOf b64 mimeType (Some md) = Inr fb"
  shows "if mimeType = str ''image/png'' \<and> take 8 (base64Decode b64) = expectedSig
         then fb = take (declaredEnd (base64Decode b64)) (base64Decode b64)
                   @ concat (map specChunk (specEntries md))
                   @ drop (declaredEnd (base64Decode b64)) (base64Decode b64)
              \<and> length fb = length (base64Decode b64) + overhead md
              \<and> length (base64Decode b64) < length fb
         else fb = base64Decode b64"
proof (cases "mimeType = str ''image/png'' \<and> take 8 (base64Decode b64) = expectedSig")
  case True
  let ?raw = "base64Decode b64"
  have e: "embedPngMetadata ?raw md = Inr fb"
    using assms True by (simp add: finalBufferOf_def Let_def)
  then have fb: "fb = take (declaredEnd ?raw) ?raw @ concat (map specChunk (specEntries md))
                      @ drop (declaredEnd ?raw) ?raw"
    using True by (simp add: embedPngMetadata_cases split: if_splits)
  have "length fb = length ?raw + overhead md"
    unfolding fb by (simp add: length_concat_specChunks overhead_def)
  with fb True overhead_positive [of md] show ?thesis by simp
next
  case False
  then show ?thesis
    using assms by (auto simp: finalBufferOf_def Let_def embedPngMetadata_cases split: if_splits)
qed

text \<open>
  Claim C9. In every successful outcome the \<open>base64Data\<close> handed back is the provider's,
  unchanged, and exactly one buffer has been written. When the MIME type is
  \<open>image/png\<close> and the decoded data begin with the PNG signature, the written buffer is
  the decoded data with the chunks of the metadata inserted after the first chunk: it is
  longer than the decoded data by exactly the length of these chunks. Otherwise the
  written buffer is the decoded data.
\<close>

theorem returned_data_is_raw_and_file_is_extended:
  assumes "executeGenerateImage e w input = (w', r)" and "success r"
  shows "\<exists>preset g img fb now raw.
           generateImage (createProvider e (provider_in input))
               (buildOptions input preset (validatePrompt e (prompt_in input))) = Inr g
         \<and> image r = Some img
         \<and> base64Data_out img = base64Data_gen g
         \<and> raw = base64Decode (base64Data_out img)
         \<and> (\<exists>es. events w' = events w @ es \<and> writtenBuffers es = [fb])
         \<and> (if mimeType_gen g = str ''image/png'' \<and> take 8 raw = expectedSig
             then fb = take (declaredEnd raw) raw
                       @ concat (map specChunk (specEntries (buildMetadata input g now)))
                       @ drop (declaredEnd raw) raw
                  \<and> length fb = length raw + overhead (buildMetadata input g now)
                  \<and> length raw < length fb
             else fb = raw)"
proof -
  let ?pv = "validatePrompt e (prompt_in input)"
  from execute_success_stages [OF assms]
  obtain preset g p where
    g: "generateImage (createProvider e (provider_in input)) (buildOptions input preset ?pv) = Inr g"
    and sc: "saveCall e (emit (GenerateImageCall (buildOptions input preset ?pv))
               (emit IsConfiguredCall w)) input g = (w', Inr p)"
    and r: "r = successResult input preset g
                 (formatFileSize (estimateFileSize (base64Data_gen g))) p"
    by blast
  let ?w1 = "emit (GenerateImageCall (buildOptions input preset ?pv)) (emit IsConfiguredCall w)"
  obtain img where img: "image r = Some img" and b: "base64Data_out img = base64Data_gen g"
    by (simp add: r successResult_def Let_def)
  from saveCall_unfold [of ?w1 e input g]
  obtain w2 outputPath now where
    w2: "events w2 = events ?w1"
    and sv: "saveImage e w2 (base64Data_gen g) outputPath (mimeType_gen g)
               (Some (buildMetadata input g now)) = (w', Inr p)"
    using sc by auto
  from saveImage_Inr [OF sv]
  obtain fb mk where
    fb: "finalBufferOf (base64Data_gen g) (mimeType_gen g) (Some (buildMetadata input g now)) = Inr fb"
    and ev: "events w' = events w2 @ (if mk then [] else [Mkdir (dirname e
               (snd (resolveTarget e w2 outputPath (mimeType_gen g)
                  (projr (isDirectoryPath e outputPath (resolve e outputPath))))))])
               @ [WriteFile p fb]"
    by (metis sum.sel(2))
  let ?es = "[IsConfiguredCall, GenerateImageCall (buildOptions input preset ?pv)]
             @ (if mk then [] else [Mkdir (dirname e
               (snd (resolveTarget e w2 outputPath (mimeType_gen g)
                  (projr (isDirectoryPath e outputPath (resolve e outputPath))))))])
             @ [WriteFile p fb]"
  have e1: "events w' = events w @ ?es" using ev w2 by (simp add: emit_def)
  have e2: "writtenBuffers ?es = [fb]" by simp
  have ex: "\<exists>es. events w' = events w @ es \<and> writtenBuffers es = [fb]"
    using e1 e2 by blast
  from finalBufferOf_cases [OF fb] g img b ex show ?thesis
    by (intro exI [of _ preset] exI [of _ g] exI [of _ img] exI [of _ fb] exI [of _ now]
        exI [of _ "base64Decode (base64Data_gen g)"]) simp
qed

theorem returned_data_is_raw_and_file_is_extended_witness:
  "success (snd (executeGenerateImage exampleEnv world0 sunsetInput))
   \<and> map_option base64Data_out (image (snd (executeGenerateImage exampleEnv world0 sunsetInput)))
       = Some onePixelBase64
   \<and> take 8 (base64Decode onePixelBase64) = expectedSig
   \<and> length (base64Decode onePixelBase64) = 70
   \<and> map length (writtenBuffers (events (fst (executeGenerateImage exampleEnv world0 sunsetInput))))
       = [70 + 319]"
proof -
  let ?run = "executeGenerateImage exampleEnv world0 sunsetInput"
  have h1: "?run = (fst ?run, snd ?run)" by simp
  have h2: "success (snd ?run)" by (simp add: sunset_run [OF example_presets(1)])
  have gen: "\<And>opts. generateImage (createProvider exampleEnv (provider_in sunsetInput)) opts
                 = Inr exampleImage"
    by (simp add: exampleEnv_def exampleProvider_def)
  have sig: "take 8 (base64Decode onePixelBase64) = expectedSig"
    by (simp add: onePixelBase64_decodes onePixelPng_signature)
  have len: "length (base64Decode onePixelBase64) = 70"
    by (simp add: onePixelBase64_decodes onePixelPng_length)
  from returned_data_is_raw_and_file_is_extended [OF h1 h2]
  obtain preset g img fb es where
    a: "generateImage (createProvider exampleEnv (provider_in sunsetInput))
          (buildOptions sunsetInput preset (validatePrompt exampleEnv (prompt_in sunsetInput))) = Inr g"
    and b: "image (snd ?run) = Some img"
    and c: "base64Data_out img = base64Data_gen g"
    and d: "events (fst ?run) = events world0 @ es" and d': "writtenBuffers es = [fb]"
    by blast
  have g: "g = exampleImage" using a gen by simp
  have "map_option base64Data_out (image (snd ?run)) = Some onePixelBase64"
    using b c by (simp add: g)
  moreover have "map length (writtenBuffers (events (fst ?run))) = [70 + 319]"
    unfolding sunset_run [OF example_presets(1)] fst_conv
    by (simp add: exampleWorld_def onePixel_written_size)
  ultimately show ?thesis using h2 sig len by blast
qed

subsection \<open>Output paths\<close>

lemma missing_extension_is_added_once:
  "extname e a = [] \<Longrightarrow>
     addExtensionIfMissing e a m = a @ jsToString (getExtensionFromMimeType m)"
  "extname e a \<noteq> [] \<Longrightarrow> addExtensionIfMissing e a m = a"
  by (simp_all add: addExtensionIfMissing_def)

lemma saved_path_in_directory:
  assumes "saveImage e w b64 outputPath mimeType md = (w', Inr p)"
      and "isDirectoryPath e outputPath (resolve e outputPath) = Inr True"
  shows "\<exists>name stamp. length stamp = 19
           \<and> name = str ''blog-image-'' @ stamp @ jsToString (getExtensionFromMimeType mimeType)
           \<and> p = addExtensionIfMissing e (join e (resolve e outputPath) name) mimeType"
proof -
  from saveImage_Inr [OF assms(1)] assms(2)
  have "p = addExtensionIfMissing e (snd (resolveTarget e w outputPath mimeType True)) mimeType"
    by auto
  then have "p = addExtensionIfMissing e (join e (resolve e outputPath)
                 (str ''blog-image-'' @ timestampOf (clock e (ticks w))
                  @ jsToString (getExtensionFromMimeType mimeType))) mimeType"
    by (simp add: resolveTarget_directory)
  then show ?thesis
    using length_timestampOf [of "clock e (ticks w)"] by blast
qed

lemma saved_path_of_file:
  assumes "saveImage e w b64 outputPath mimeType md = (w', Inr p)"
      and "isDirectoryPath e outputPath (resolve e outputPath) = Inr False"
  shows "p = addExtensionIfMissing e (resolve e outputPath) mimeType"
  using saveImage_Inr [OF assms(1)] assms(2) by (auto simp: resolveTarget_file)









end
